theory Spec2Isabelle
  imports Complex_Main "HOL-Library.AList"
begin

section \<open>Portfolio advisor chatbot: a shallow embedding of \<open>backend/main.py\<close>\<close>

text \<open>
  Conventions of the embedding.
  \<^item> A Python \<open>str\<close> is a \<open>string\<close>; the development covers ASCII messages. A character
    outside ASCII is left alone by \<open>upper_char\<close> and \<open>lower_char\<close> and is not a word
    character, which is not what Python's Unicode tables do.
  \<^item> The numbers of the program are values of a type \<open>'n\<close> that is left open, and the
    operations that Python and numpy perform on them (\<open>float(n)\<close>, the arithmetic,
    \<open>round(x, 2)\<close>, the comparison with 0) are parameters, as is the order in which SQLite
    returns the rows of a query without \<open>ORDER BY\<close>. Nothing is assumed about them.
  \<^item> A dictionary with a fixed set of optional keys is a record of options; a raised
    exception is the \<open>Inl\<close> of a sum.
\<close>

subsection \<open>Characters and substrings\<close>

definition is_upper :: "char \<Rightarrow> bool" where
  "is_upper c = (65 \<le> (of_char c :: nat) \<and> (of_char c :: nat) \<le> 90)"

definition is_lower :: "char \<Rightarrow> bool" where
  "is_lower c = (97 \<le> (of_char c :: nat) \<and> (of_char c :: nat) \<le> 122)"

definition is_digit :: "char \<Rightarrow> bool" where
  "is_digit c = (48 \<le> (of_char c :: nat) \<and> (of_char c :: nat) \<le> 57)"

text \<open>The class \<open>\w\<close> of the regular expressions, on ASCII.\<close>

definition is_word :: "char \<Rightarrow> bool" where
  "is_word c = (is_upper c \<or> is_lower c \<or> is_digit c \<or> c = CHR ''_'')"

definition upper_char :: "char \<Rightarrow> char" where
  "upper_char c = (if is_lower c then char_of ((of_char c :: nat) - 32) else c)"

definition lower_char :: "char \<Rightarrow> char" where
  "lower_char c = (if is_upper c then char_of ((of_char c :: nat) + 32) else c)"

text \<open>\<open>text.upper()\<close> and \<open>text.lower()\<close>.\<close>

definition upper :: "string \<Rightarrow> string" where
  "upper s = map upper_char s"

definition lower :: "string \<Rightarrow> string" where
  "lower s = map lower_char s"

definition starts_with :: "string \<Rightarrow> string \<Rightarrow> bool" where
  "starts_with w s = (take (length w) s = w)"

text \<open>\<open>w in s\<close> on strings.\<close>

fun contains :: "string \<Rightarrow> string \<Rightarrow> bool" where
  "contains w [] = (w = [])"
| "contains w (c # cs) = (starts_with w (c # cs) \<or> contains w cs)"

subsection \<open>The regular expressions of the NLP processor\<close>

text \<open>
  Every intent pattern is a sequence of literal words separated by \<open>.*\<close>. A pattern is
  read from the source's own pattern string by \<open>parse_pattern\<close>; \<open>re_search\<close> is
  \<open>re.search\<close> as a truth value. The dot does not match a line feed.
\<close>

datatype ritem = Lit string | DotStar

fun parse_pattern :: "string \<Rightarrow> ritem list" where
  "parse_pattern [] = []"
| "parse_pattern [c] = [Lit [c]]"
| "parse_pattern (c # d # r) =
     (if c = CHR ''.'' \<and> d = CHR ''*'' then DotStar # parse_pattern r
      else (case parse_pattern (d # r) of
              Lit l # items \<Rightarrow> Lit (c # l) # items
            | items \<Rightarrow> Lit [c] # items))"

fun match_here :: "ritem list \<Rightarrow> string \<Rightarrow> bool" where
  "match_here [] s = True"
| "match_here (Lit l # r) s = (starts_with l s \<and> match_here r (drop (length l) s))"
| "match_here (DotStar # r) [] = match_here r []"
| "match_here (DotStar # r) (c # cs) =
     (match_here r (c # cs) \<or> (c \<noteq> CHR 0x0A \<and> match_here (DotStar # r) cs))"

fun re_search :: "ritem list \<Rightarrow> string \<Rightarrow> bool" where
  "re_search p [] = match_here p []"
| "re_search p (c # cs) = (match_here p (c # cs) \<or> re_search p cs)"

text \<open>
  \<open>re.findall\<close> for a pattern given by its matcher: \<open>m prev s\<close> is the length of the
  match that starts at the head of \<open>s\<close>, if there is one, where \<open>prev\<close> says whether the
  character before is a word character. Matches do not overlap: the scan resumes after
  a match, which \<open>skip\<close> counts down. No pattern here matches the empty string.
\<close>

fun findall_aux :: "(bool \<Rightarrow> string \<Rightarrow> nat option) \<Rightarrow> nat \<Rightarrow> bool \<Rightarrow> string \<Rightarrow> string list" where
  "findall_aux m skip prev [] = []"
| "findall_aux m skip prev (c # cs) =
     (if 0 < skip then findall_aux m (skip - 1) (is_word c) cs
      else (case m prev (c # cs) of
              Some k \<Rightarrow> take k (c # cs) # findall_aux m (k - 1) (is_word c) cs
            | None \<Rightarrow> findall_aux m 0 (is_word c) cs))"

definition findall :: "(bool \<Rightarrow> string \<Rightarrow> nat option) \<Rightarrow> string \<Rightarrow> string list" where
  "findall m s = findall_aux m 0 False s"

text \<open>\<open>\b\<close>: the characters on the two sides differ in being word characters.\<close>

definition boundary :: "bool \<Rightarrow> string \<Rightarrow> bool" where
  "boundary prev s = (prev \<noteq> (case s of [] \<Rightarrow> False | c # _ \<Rightarrow> is_word c))"

text \<open>\<open>\b[A-Z]{2,4}\b\<close>: the greedy repetition tries four letters, then three, then two.\<close>

definition symbol_match :: "bool \<Rightarrow> string \<Rightarrow> nat option" where
  "symbol_match prev s =
     (if boundary prev s
      then List.find (\<lambda>k. k \<le> length s \<and> list_all is_upper (take k s) \<and> boundary True (drop k s))
             [4, 3, 2]
      else None)"

text \<open>\<open>\d+\.?\d*\<close>: digits, then a dot if there is one, then the digits after it.\<close>

definition number_match :: "bool \<Rightarrow> string \<Rightarrow> nat option" where
  "number_match prev s =
     (let ip = takeWhile is_digit s; rest = dropWhile is_digit s
      in if ip = [] then None
         else (case rest of
                 c # rest' \<Rightarrow>
                   if c = CHR ''.'' then Some (length ip + 1 + length (takeWhile is_digit rest'))
                   else Some (length ip)
               | [] \<Rightarrow> Some (length ip)))"

subsection \<open>Faults\<close>

text \<open>
  The exceptions that can reach the \<open>try\<close> of the chat endpoint: a missing dictionary key,
  a list index out of range, an exception of \<open>sqlite3\<close> and an exception raised by the
  market data object. \<open>str_of_fault\<close> is \<open>str(e)\<close>.
\<close>

datatype fault = KeyError string | IndexError | StoreFault string | GatewayFault string

fun str_of_fault :: "fault \<Rightarrow> string" where
  "str_of_fault (KeyError k) = [CHR 0x27] @ k @ [CHR 0x27]"
| "str_of_fault IndexError = ''list index out of range''"
| "str_of_fault (StoreFault m) = m"
| "str_of_fault (GatewayFault m) = m"

text \<open>\<open>xs[i]\<close> for an index that is not negative.\<close>

definition py_index :: "'a list \<Rightarrow> nat \<Rightarrow> fault + 'a" where
  "py_index xs i = (if i < length xs then Inr (xs ! i) else Inl IndexError)"

subsection \<open>The tables of the database\<close>

text \<open>
  The three tables are lists of rows. The \<open>id\<close> column is left out: no query reads it.
  A \<open>REAL\<close> column holds a number of the open type \<open>'n\<close>.
\<close>

record 'n holding_row =
  h_user_id :: string
  h_symbol :: string
  h_quantity :: 'n
  h_buy_price :: 'n
  h_buy_date :: string

record 'n alert_row =
  a_user_id :: string
  a_symbol :: string
  a_condition :: string
  a_price :: 'n
  a_active :: bool
  a_created_date :: string

record 'n transaction_row =
  t_user_id :: string
  t_symbol :: string
  t_action :: string
  t_quantity :: 'n
  t_price :: 'n
  t_date :: string

record 'n db =
  holdings :: "'n holding_row list"
  alerts :: "'n alert_row list"
  transactions :: "'n transaction_row list"

subsection \<open>What the program takes from its runtime\<close>

text \<open>
  The operations of Python, numpy and SQLite that the program uses and that are not in
  the repository, as one parameter of the model:
  \<^item> \<open>py_float\<close> is \<open>float(n)\<close> on a string that \<open>\d+\.?\d*\<close> matched;
  \<^item> \<open>py_zero\<close> and \<open>py_hundred\<close> are the literals \<open>0\<close> and \<open>100\<close>;
  \<^item> \<open>py_add\<close>, \<open>py_sub\<close>, \<open>py_mul\<close> and \<open>py_div\<close> are \<open>+\<close>, \<open>-\<close>, \<open>*\<close> and \<open>/\<close>;
  \<^item> \<open>py_round2\<close> is \<open>round(x, 2)\<close> and \<open>py_positive\<close> is \<open>x > 0\<close>;
  \<^item> \<open>sql_order\<close> puts the rows that the \<open>SELECT\<close> of \<open>get_portfolio\<close> selects in
    the order in which the engine returns them: SQL leaves it open. It is a permutation
    of the rows, which no theorem below needs.
\<close>

record 'n runtime =
  py_float :: "string \<Rightarrow> 'n"
  py_zero :: 'n
  py_hundred :: 'n
  py_add :: "'n \<Rightarrow> 'n \<Rightarrow> 'n"
  py_sub :: "'n \<Rightarrow> 'n \<Rightarrow> 'n"
  py_mul :: "'n \<Rightarrow> 'n \<Rightarrow> 'n"
  py_div :: "'n \<Rightarrow> 'n \<Rightarrow> 'n"
  py_round2 :: "'n \<Rightarrow> 'n"
  py_positive :: "'n \<Rightarrow> bool"
  sql_order :: "'n holding_row list \<Rightarrow> 'n holding_row list"

subsection \<open>Entities and intents\<close>

text \<open>
  The entity dictionary: each of its three keys is present or absent. The two confidence
  constants are kept as the decimal literals of the source.
\<close>

record 'n entities =
  symbols :: "string list option"
  numbers :: "'n list option"
  condition :: "string option"

record 'n intent =
  action :: string
  entities :: "'n entities"
  confidence :: rat

definition extract_entities :: "'n runtime \<Rightarrow> string \<Rightarrow> 'n entities" where
  "extract_entities rt text =
     (let syms = findall symbol_match (upper text);
          nums = findall number_match text
      in \<lparr> symbols = (if syms \<noteq> [] then Some syms else None),
           numbers = (if nums \<noteq> [] then Some (map (py_float rt) nums) else None),
           condition =
             (if list_ex (\<lambda>w. contains w (lower text)) [''above'', ''over'', ''higher'']
              then Some ''above''
              else if list_ex (\<lambda>w. contains w (lower text)) [''below'', ''under'', ''lower'']
              then Some ''below''
              else None) \<rparr>)"

definition intent_patterns :: "(string \<times> string list) list" where
  "intent_patterns =
     [(''show_portfolio'',
         [''show.*portfolio'', ''my.*holdings'', ''portfolio.*summary'',
          ''what.*do.*i.*own'', ''current.*portfolio'']),
      (''add_alert'',
         [''alert.*me.*if'', ''notify.*when'', ''tell.*me.*if'',
          ''set.*alert'', ''watch.*for'']),
      (''compare_stocks'',
         [''compare.*vs'', ''compare.*and'', ''.*vs.*'',
          ''difference.*between'', ''which.*better'']),
      (''simulate'',
         [''what.*if.*buy'', ''simulate.*buying'', ''if.*i.*bought'',
          ''scenario.*where'', ''what.*would.*happen'']),
      (''add_holding'',
         [''i.*bought'', ''add.*to.*portfolio'', ''i.*own'',
          ''purchased.*shares'', ''bought.*shares'']),
      (''stock_price'',
         [''price.*of'', ''current.*price'', ''how.*much.*is'',
          ''what.*is.*trading'', ''.*price.*now''])]"

text \<open>The two nested loops of \<open>classify_intent\<close>: the first intent with a matching pattern.\<close>

fun first_intent :: "(string \<times> string list) list \<Rightarrow> string \<Rightarrow> string option" where
  "first_intent [] t = None"
| "first_intent ((name, patterns) # rest) t =
     (if list_ex (\<lambda>p. re_search (parse_pattern p) t) patterns then Some name
      else first_intent rest t)"

definition classify_intent :: "'n runtime \<Rightarrow> string \<Rightarrow> 'n intent" where
  "classify_intent rt text =
     (case first_intent intent_patterns (lower text) of
        Some name \<Rightarrow>
          \<lparr> action = name, entities = extract_entities rt text, confidence = 8 / 10 \<rparr>
      | None \<Rightarrow>
          \<lparr> action = ''stock_price'', entities = extract_entities rt text, confidence = 5 / 10 \<rparr>)"

subsection \<open>The database layer\<close>

text \<open>
  An operation takes the outcome of its \<open>sqlite3\<close> calls as an argument: \<open>None\<close> when
  they succeed, \<open>Some m\<close> when one raises with message \<open>m\<close>, and then nothing is
  committed. \<open>datetime.now().isoformat()\<close> is an argument too.
\<close>

text \<open>What \<open>init_database\<close> creates when the database file is new.\<close>

definition init_database :: "'n db" where
  "init_database = \<lparr> holdings = [], alerts = [], transactions = [] \<rparr>"

text \<open>
  \<open>INSERT OR REPLACE\<close> under \<open>UNIQUE(user_id, symbol)\<close>: the rows in conflict with the
  new row are deleted, then the new row is inserted.
\<close>

definition same_key :: "'n holding_row \<Rightarrow> 'n holding_row \<Rightarrow> bool" where
  "same_key r r' = (h_user_id r = h_user_id r' \<and> h_symbol r = h_symbol r')"

definition insert_or_replace :: "'n holding_row \<Rightarrow> 'n holding_row list \<Rightarrow> 'n holding_row list" where
  "insert_or_replace r rows = filter (\<lambda>r'. \<not> same_key r r') rows @ [r]"

definition add_holding ::
  "string option \<Rightarrow> 'n db \<Rightarrow> string \<Rightarrow> string \<Rightarrow> 'n \<Rightarrow> 'n \<Rightarrow> string \<Rightarrow> string \<Rightarrow> (fault + unit) \<times> 'n db" where
  "add_holding sql d user_id symbol quantity buy_price now1 now2 =
     (case sql of
        Some m \<Rightarrow> (Inl (StoreFault m), d)
      | None \<Rightarrow>
          (Inr (),
           d\<lparr> holdings :=
                insert_or_replace
                  \<lparr> h_user_id = user_id, h_symbol = symbol, h_quantity = quantity,
                    h_buy_price = buy_price, h_buy_date = now1 \<rparr>
                  (holdings d),
              transactions :=
                transactions d @
                  [\<lparr> t_user_id = user_id, t_symbol = symbol, t_action = ''BUY'',
                     t_quantity = quantity, t_price = buy_price, t_date = now2 \<rparr>] \<rparr>))"

text \<open>A holding as \<open>get_portfolio\<close> returns it.\<close>

record 'n holding =
  p_symbol :: string
  p_quantity :: 'n
  p_buy_price :: 'n
  p_buy_date :: string

definition holding_of_row :: "'n holding_row \<Rightarrow> 'n holding" where
  "holding_of_row r =
     \<lparr> p_symbol = h_symbol r, p_quantity = h_quantity r, p_buy_price = h_buy_price r,
       p_buy_date = h_buy_date r \<rparr>"

text \<open>The rows of the user, in the order in which the engine returns them.\<close>

definition get_portfolio ::
  "'n runtime \<Rightarrow> string option \<Rightarrow> 'n db \<Rightarrow> string \<Rightarrow> (fault + 'n holding list) \<times> 'n db" where
  "get_portfolio rt sql d user_id =
     (case sql of
        Some m \<Rightarrow> (Inl (StoreFault m), d)
      | None \<Rightarrow>
          (Inr (map holding_of_row
                  (sql_order rt (filter (\<lambda>r. h_user_id r = user_id) (holdings d)))), d))"

definition add_alert ::
  "string option \<Rightarrow> 'n db \<Rightarrow> string \<Rightarrow> string \<Rightarrow> string \<Rightarrow> 'n \<Rightarrow> string \<Rightarrow> (fault + unit) \<times> 'n db" where
  "add_alert sql d user_id symbol cond price now1 =
     (case sql of
        Some m \<Rightarrow> (Inl (StoreFault m), d)
      | None \<Rightarrow>
          (Inr (),
           d\<lparr> alerts :=
                alerts d @
                  [\<lparr> a_user_id = user_id, a_symbol = symbol, a_condition = cond,
                     a_price = price, a_active = True, a_created_date = now1 \<rparr>] \<rparr>))"

subsection \<open>The market data API\<close>

text \<open>
  \<open>yfinance\<close> is outside the repository: a provider maps a symbol to the exception it
  raises (\<open>Inl\<close> of its message) or to the \<open>info\<close> dictionary and the bars of
  \<open>history(period="1d")\<close>, oldest first. Of a bar only \<open>Open\<close> and \<open>Close\<close> are read.
\<close>

record 'n ticker_info =
  shortName :: "string option"
  currency :: "string option"
  sector :: "string option"
  marketCap :: "'n option"
  trailingPE :: "'n option"

record 'n bar =
  bar_open :: 'n
  bar_close :: 'n

type_synonym 'n provider = "string \<Rightarrow> string + ('n ticker_info \<times> 'n bar list)"

record 'n quote =
  q_symbol :: string
  q_name :: string
  current_price :: 'n
  q_currency :: string
  q_sector :: string
  market_cap :: 'n
  pe_ratio :: "string + 'n"
  day_change :: 'n

text \<open>The dictionary \<open>get_stock_info\<close> returns: \<open>{"error": ...}\<close> or a quote.\<close>

datatype 'n stock_info = StockError string | StockQuote "'n quote"

definition get_or :: "'a option \<Rightarrow> 'a \<Rightarrow> 'a" where
  "get_or v dflt = (case v of Some x \<Rightarrow> x | None \<Rightarrow> dflt)"

definition get_stock_info :: "'n runtime \<Rightarrow> 'n provider \<Rightarrow> string \<Rightarrow> 'n stock_info" where
  "get_stock_info rt yf symbol =
     (case yf symbol of
        Inl e \<Rightarrow> StockError (''Error fetching data for '' @ symbol @ '': '' @ e)
      | Inr (info, hist) \<Rightarrow>
          if hist = [] then StockError (''No data found for '' @ symbol)
          else StockQuote
            \<lparr> q_symbol = symbol,
              q_name = get_or (shortName info) ''N/A'',
              current_price = py_round2 rt (bar_close (last hist)),
              q_currency = get_or (currency info) ''USD'',
              q_sector = get_or (sector info) ''N/A'',
              market_cap = get_or (marketCap info) (py_zero rt),
              pe_ratio = (case trailingPE info of Some v \<Rightarrow> Inr v | None \<Rightarrow> Inl ''N/A''),
              day_change =
                (if 0 < length hist
                 then py_round2 rt (py_sub rt (bar_close (last hist)) (bar_open (last hist)))
                 else py_zero rt) \<rparr>)"

text \<open>
  The analytics engine and the endpoint call \<open>market_api.get_stock_info\<close> on the object
  they are given: a market API maps a symbol to the exception the call raises or to the
  dictionary it returns. \<open>market_data_api\<close> is the repository's own, which never raises.
\<close>

type_synonym 'n market_api = "string \<Rightarrow> string + 'n stock_info"

definition market_data_api :: "'n runtime \<Rightarrow> 'n provider \<Rightarrow> 'n market_api" where
  "market_data_api rt yf symbol = Inr (get_stock_info rt yf symbol)"

subsection \<open>The analytics engine\<close>

record 'n detail =
  d_symbol :: string
  d_name :: string
  d_quantity :: 'n
  d_buy_price :: 'n
  d_current_price :: 'n
  d_current_value :: 'n
  d_cost_basis :: 'n
  d_profit_loss :: 'n
  d_profit_loss_pct :: 'n

record 'n valuation =
  total_value :: 'n
  total_cost :: 'n
  total_profit_loss :: 'n
  total_profit_loss_pct :: 'n
  v_holdings :: "'n detail list"

record 'n simulation =
  s_symbol :: string
  s_quantity :: 'n
  price_per_share :: 'n
  s_total_cost :: 'n
  current_portfolio_value :: 'n
  new_portfolio_value :: 'n

text \<open>
  The dictionaries that the engine and the endpoint return. The two messages built with
  an f-string keep the values they print.
\<close>

datatype 'n response =
    Message string
  | AlertSet string string 'n
  | HoldingAdded 'n string 'n
  | Error string
  | Valuation "'n valuation"
  | Comparison "(string \<times> 'n stock_info) list"
  | StockInfoDict "'n stock_info"
  | Simulation "'n simulation"
  | StockInfo "'n stock_info"

text \<open>The \<open>error\<close> key of a response dictionary, when it has one.\<close>

fun error_of :: "'n response \<Rightarrow> string option" where
  "error_of (Error m) = Some m"
| "error_of (StockInfoDict (StockError m)) = Some m"
| "error_of _ = None"

text \<open>The entry that \<open>calculate_portfolio_value\<close> appends for a priced holding.\<close>

definition detail_of :: "'n runtime \<Rightarrow> 'n holding \<Rightarrow> 'n quote \<Rightarrow> 'n detail" where
  "detail_of rt holding stock_info =
     (let current_value = py_mul rt (p_quantity holding) (current_price stock_info);
          cost_basis = py_mul rt (p_quantity holding) (p_buy_price holding);
          profit_loss = py_sub rt current_value cost_basis
      in \<lparr> d_symbol = p_symbol holding,
           d_name = q_name stock_info,
           d_quantity = p_quantity holding,
           d_buy_price = p_buy_price holding,
           d_current_price = current_price stock_info,
           d_current_value = py_round2 rt current_value,
           d_cost_basis = py_round2 rt cost_basis,
           d_profit_loss = py_round2 rt profit_loss,
           d_profit_loss_pct =
             (if py_positive rt cost_basis
              then py_round2 rt (py_mul rt (py_div rt profit_loss cost_basis) (py_hundred rt))
              else py_zero rt) \<rparr>)"

text \<open>
  The loop over the holdings, with its three accumulators. An exception of the market API
  ends it.
\<close>

fun value_loop ::
  "'n runtime \<Rightarrow> 'n market_api \<Rightarrow> 'n holding list \<Rightarrow> 'n \<Rightarrow> 'n \<Rightarrow> 'n detail list \<Rightarrow>
     fault + ('n \<times> 'n \<times> 'n detail list)" where
  "value_loop rt api [] tv tc ds = Inr (tv, tc, ds)"
| "value_loop rt api (holding # rest) tv tc ds =
     (case api (p_symbol holding) of
        Inl e \<Rightarrow> Inl (GatewayFault e)
      | Inr (StockError m) \<Rightarrow> value_loop rt api rest tv tc ds
      | Inr (StockQuote stock_info) \<Rightarrow>
          value_loop rt api rest
            (py_add rt tv (py_mul rt (p_quantity holding) (current_price stock_info)))
            (py_add rt tc (py_mul rt (p_quantity holding) (p_buy_price holding)))
            (ds @ [detail_of rt holding stock_info]))"

definition calculate_portfolio_value ::
  "'n runtime \<Rightarrow> string option \<Rightarrow> 'n market_api \<Rightarrow> 'n db \<Rightarrow> string \<Rightarrow> (fault + 'n response) \<times> 'n db" where
  "calculate_portfolio_value rt sql api d user_id =
     (case get_portfolio rt sql d user_id of
        (Inl f, d') \<Rightarrow> (Inl f, d')
      | (Inr hs, d') \<Rightarrow>
          if hs = [] then (Inr (Message ''No holdings found in portfolio''), d')
          else (case value_loop rt api hs (py_zero rt) (py_zero rt) [] of
                  Inl f \<Rightarrow> (Inl f, d')
                | Inr (tv, tc, ds) \<Rightarrow>
                    (Inr (Valuation
                       \<lparr> total_value = py_round2 rt tv,
                         total_cost = py_round2 rt tc,
                         total_profit_loss = py_round2 rt (py_sub rt tv tc),
                         total_profit_loss_pct =
                           (if py_positive rt tc
                            then py_round2 rt
                                   (py_mul rt (py_div rt (py_sub rt tv tc) tc) (py_hundred rt))
                            else py_zero rt),
                         v_holdings = ds \<rparr>), d')))"

text \<open>\<open>comparison[symbol] = stock_info\<close> on a dictionary that keeps the order of insertion.\<close>

fun compare_loop ::
  "'n market_api \<Rightarrow> string list \<Rightarrow> (string \<times> 'n stock_info) list \<Rightarrow>
     fault + (string \<times> 'n stock_info) list" where
  "compare_loop api [] comparison = Inr comparison"
| "compare_loop api (symbol # rest) comparison =
     (case api symbol of
        Inl e \<Rightarrow> Inl (GatewayFault e)
      | Inr (StockError m) \<Rightarrow> compare_loop api rest comparison
      | Inr (StockQuote q) \<Rightarrow> compare_loop api rest (AList.update symbol (StockQuote q) comparison))"

definition compare_stocks :: "'n market_api \<Rightarrow> string list \<Rightarrow> fault + 'n response" where
  "compare_stocks api syms =
     (case compare_loop api syms [] of Inl f \<Rightarrow> Inl f | Inr c \<Rightarrow> Inr (Comparison c))"

text \<open>\<open>current_portfolio.get('total_value', 0)\<close>.\<close>

fun get_total_value :: "'n runtime \<Rightarrow> 'n response \<Rightarrow> 'n" where
  "get_total_value rt (Valuation v) = total_value v"
| "get_total_value rt _ = py_zero rt"

definition simulate_purchase ::
  "'n runtime \<Rightarrow> string option \<Rightarrow> 'n market_api \<Rightarrow> 'n db \<Rightarrow> string \<Rightarrow> string \<Rightarrow> 'n \<Rightarrow>
     (fault + 'n response) \<times> 'n db" where
  "simulate_purchase rt sql api d user_id symbol qty =
     (case api symbol of
        Inl e \<Rightarrow> (Inl (GatewayFault e), d)
      | Inr (StockError m) \<Rightarrow> (Inr (StockInfoDict (StockError m)), d)
      | Inr (StockQuote stock_info) \<Rightarrow>
          (case calculate_portfolio_value rt sql api d user_id of
             (Inl f, d') \<Rightarrow> (Inl f, d')
           | (Inr current_portfolio, d') \<Rightarrow>
               (let purchase_cost = py_mul rt qty (current_price stock_info)
                in (Inr (Simulation
                      \<lparr> s_symbol = symbol,
                        s_quantity = qty,
                        price_per_share = current_price stock_info,
                        s_total_cost = py_round2 rt purchase_cost,
                        current_portfolio_value = get_total_value rt current_portfolio,
                        new_portfolio_value =
                          py_round2 rt
                            (py_add rt (get_total_value rt current_portfolio) purchase_cost) \<rparr>),
                    d'))))"

subsection \<open>The chat endpoint\<close>

definition didnt_understand :: string where
  "didnt_understand =
     ''I didn't understand that command. Try asking about your portfolio, setting alerts, or comparing stocks.''"

text \<open>
  The body of the \<open>try\<close>: the branch of the intent's action. The two readings of
  \<open>datetime.now()\<close> that a write makes are \<open>now1\<close> and \<open>now2\<close>.
\<close>

definition dispatch ::
  "'n runtime \<Rightarrow> string option \<Rightarrow> 'n market_api \<Rightarrow> string \<Rightarrow> string \<Rightarrow> 'n db \<Rightarrow> string \<Rightarrow> 'n intent \<Rightarrow>
     (fault + 'n response) \<times> 'n db" where
  "dispatch rt sql api now1 now2 d user_id i =
     (let e = entities i in
      if action i = ''show_portfolio'' then calculate_portfolio_value rt sql api d user_id
      else if action i = ''add_alert'' then
        (case (symbols e, numbers e, condition e) of
           (Some syms, Some nums, Some cond) \<Rightarrow>
             (case py_index syms 0 of
                Inl f \<Rightarrow> (Inl f, d)
              | Inr symbol \<Rightarrow>
                  (case py_index nums 0 of
                     Inl f \<Rightarrow> (Inl f, d)
                   | Inr price \<Rightarrow>
                       (case add_alert sql d user_id symbol cond price now1 of
                          (Inl f, d') \<Rightarrow> (Inl f, d')
                        | (Inr u, d') \<Rightarrow> (Inr (AlertSet symbol cond price), d'))))
         | _ \<Rightarrow> (Inr (Message ''Please specify symbol, price, and condition (above/below)''), d))
      else if action i = ''compare_stocks'' then
        (case symbols e of
           Some syms \<Rightarrow>
             if 2 \<le> length syms then (compare_stocks api (take 2 syms), d)
             else (Inr (Message ''Please specify at least 2 stock symbols to compare''), d)
         | None \<Rightarrow> (Inr (Message ''Please specify at least 2 stock symbols to compare''), d))
      else if action i = ''simulate'' then
        (case (symbols e, numbers e) of
           (Some syms, Some nums) \<Rightarrow>
             (case py_index syms 0 of
                Inl f \<Rightarrow> (Inl f, d)
              | Inr symbol \<Rightarrow>
                  (case py_index nums 0 of
                     Inl f \<Rightarrow> (Inl f, d)
                   | Inr qty \<Rightarrow> simulate_purchase rt sql api d user_id symbol qty))
         | _ \<Rightarrow> (Inr (Message ''Please specify symbol and quantity for simulation''), d))
      else if action i = ''add_holding'' then
        (case symbols e of
           None \<Rightarrow> (Inr (Message ''Please specify symbol, quantity, and purchase price''), d)
         | Some syms \<Rightarrow>
             (case numbers e of
                None \<Rightarrow> (Inl (KeyError ''numbers''), d)
              | Some nums \<Rightarrow>
                  if 2 \<le> length nums then
                    (case py_index syms 0 of
                       Inl f \<Rightarrow> (Inl f, d)
                     | Inr symbol \<Rightarrow>
                         (case py_index nums 0 of
                            Inl f \<Rightarrow> (Inl f, d)
                          | Inr qty \<Rightarrow>
                              (case py_index nums 1 of
                                 Inl f \<Rightarrow> (Inl f, d)
                               | Inr price \<Rightarrow>
                                   (case add_holding sql d user_id symbol qty price now1 now2 of
                                      (Inl f, d') \<Rightarrow> (Inl f, d')
                                    | (Inr u, d') \<Rightarrow> (Inr (HoldingAdded qty symbol price), d')))))
                  else (Inr (Message ''Please specify symbol, quantity, and purchase price''), d)))
      else if action i = ''stock_price'' then
        (case symbols e of
           Some syms \<Rightarrow>
             (case py_index syms 0 of
                Inl f \<Rightarrow> (Inl f, d)
              | Inr symbol \<Rightarrow>
                  (case api symbol of
                     Inl m \<Rightarrow> (Inl (GatewayFault m), d)
                   | Inr stock_info \<Rightarrow> (Inr (StockInfo stock_info), d)))
         | None \<Rightarrow> (Inr (Message ''Please specify a stock symbol''), d))
      else (Inr (Message didnt_understand), d))"

record 'n envelope =
  env_intent :: "'n intent"
  env_response :: "'n response"

text \<open>
  \<open>chat_endpoint\<close>: the intent is classified before the \<open>try\<close>; an exception of the branch
  becomes the \<open>error\<close> response.
\<close>

definition chat_endpoint ::
  "'n runtime \<Rightarrow> string option \<Rightarrow> 'n market_api \<Rightarrow> string \<Rightarrow> string \<Rightarrow> 'n db \<Rightarrow> string \<Rightarrow> string \<Rightarrow>
     'n envelope \<times> 'n db" where
  "chat_endpoint rt sql api now1 now2 d user_id message =
     (let i = classify_intent rt message
      in (case dispatch rt sql api now1 now2 d user_id i of
            (Inl f, d') \<Rightarrow>
              (\<lparr> env_intent = i,
                 env_response = Error (''An error occurred: '' @ str_of_fault f) \<rparr>, d')
          | (Inr r, d') \<Rightarrow> (\<lparr> env_intent = i, env_response = r \<rparr>, d')))"

subsection \<open>Sequences of store calls\<close>

text \<open>
  A call of \<open>add_holding\<close> with the outcome of its \<open>sqlite3\<close> calls, its four arguments and
  its two readings of the clock; \<open>run_calls\<close> makes the calls of a list one after the
  other. \<open>rows_for\<close> selects the holding rows of a user and a symbol.
\<close>

datatype 'n call = AddHolding "string option" string string 'n 'n string string

fun run_call :: "'n db \<Rightarrow> 'n call \<Rightarrow> 'n db" where
  "run_call d (AddHolding sql user_id symbol qty price now1 now2) =
     snd (add_holding sql d user_id symbol qty price now1 now2)"

fun run_calls :: "'n db \<Rightarrow> 'n call list \<Rightarrow> 'n db" where
  "run_calls d [] = d"
| "run_calls d (c # cs) = run_calls (run_call d c) cs"

fun succeeded :: "'n call \<Rightarrow> bool" where
  "succeeded (AddHolding sql user_id symbol qty price now1 now2) = (sql = None)"

definition rows_for :: "'n db \<Rightarrow> string \<Rightarrow> string \<Rightarrow> 'n holding_row list" where
  "rows_for d user_id symbol =
     filter (\<lambda>r. h_user_id r = user_id \<and> h_symbol r = symbol) (holdings d)"

text \<open>The columns of the \<open>UNIQUE\<close> constraint.\<close>

definition row_key :: "'n holding_row \<Rightarrow> string \<times> string" where
  "row_key r = (h_user_id r, h_symbol r)"

subsection \<open>The priced holdings of a portfolio\<close>

text \<open>
  For stating what a valuation report contains: a holding is priced when the lookup of
  its symbol returns a quote; \<open>priced_pairs\<close> lists the priced holdings of a portfolio,
  in order, each with its quote. \<open>accumulate\<close> is a sum as the loop makes it: from the
  literal 0, adding the terms from left to right. \<open>priced_value\<close> and \<open>priced_cost\<close> are
  the sums over the priced holdings of quantity times current price and of quantity times
  buy price.
\<close>

definition priced :: "'n runtime \<Rightarrow> 'n provider \<Rightarrow> 'n holding \<Rightarrow> bool" where
  "priced rt yf h =
     (case get_stock_info rt yf (p_symbol h) of StockQuote q \<Rightarrow> True | StockError m \<Rightarrow> False)"

fun priced_pairs :: "'n runtime \<Rightarrow> 'n provider \<Rightarrow> 'n holding list \<Rightarrow> ('n holding \<times> 'n quote) list" where
  "priced_pairs rt yf [] = []"
| "priced_pairs rt yf (h # hs) =
     (case get_stock_info rt yf (p_symbol h) of
        StockQuote q \<Rightarrow> (h, q) # priced_pairs rt yf hs
      | StockError m \<Rightarrow> priced_pairs rt yf hs)"

definition accumulate :: "'n runtime \<Rightarrow> 'n list \<Rightarrow> 'n" where
  "accumulate rt xs = foldl (py_add rt) (py_zero rt) xs"

definition priced_value :: "'n runtime \<Rightarrow> 'n provider \<Rightarrow> 'n holding list \<Rightarrow> 'n" where
  "priced_value rt yf hs =
     accumulate rt
       (map (\<lambda>(h, q). py_mul rt (p_quantity h) (current_price q)) (priced_pairs rt yf hs))"

definition priced_cost :: "'n runtime \<Rightarrow> 'n provider \<Rightarrow> 'n holding list \<Rightarrow> 'n" where
  "priced_cost rt yf hs =
     accumulate rt
       (map (\<lambda>(h, q). py_mul rt (p_quantity h) (p_buy_price h)) (priced_pairs rt yf hs))"

text \<open>The \<open>day_change\<close> key of the dictionary that \<open>get_stock_info\<close> returns, when it has one.\<close>

fun day_change_of :: "'n stock_info \<Rightarrow> 'n option" where
  "day_change_of (StockQuote q) = Some (day_change q)"
| "day_change_of (StockError m) = None"

subsection \<open>An exact runtime and example data\<close>

text \<open>
  A runtime on the rationals for evaluating the model on examples: a decimal literal is
  read as the rational it writes, the arithmetic is exact, \<open>round(x, 2)\<close> is the nearest
  hundredth with ties to even, and rows come in the order of insertion. It is not the
  arithmetic of IEEE doubles: it serves to evaluate the model on the examples below,
  and the theorems about the program are stated for every runtime.
\<close>

definition digits_value :: "string \<Rightarrow> nat" where
  "digits_value ds = foldl (\<lambda>a c. 10 * a + ((of_char c :: nat) - 48)) 0 ds"

definition decimal_value :: "string \<Rightarrow> rat" where
  "decimal_value s =
     (let ip = takeWhile is_digit s; fp = drop 1 (dropWhile is_digit s)
      in of_nat (digits_value ip) + of_nat (digits_value fp) / 10 ^ length fp)"

definition round_half_even2 :: "rat \<Rightarrow> rat" where
  "round_half_even2 x =
     (let y = x * 100; f = \<lfloor>y\<rfloor>; d = y - of_int f
      in of_int (if d < 1 / 2 then f
                 else if 1 / 2 < d then f + 1
                 else if even f then f else f + 1) / 100)"

definition exact :: "rat runtime" where
  "exact =
     \<lparr> py_float = decimal_value,
       py_zero = 0,
       py_hundred = 100,
       py_add = (\<lambda>x y. x + y),
       py_sub = (\<lambda>x y. x - y),
       py_mul = (\<lambda>x y. x * y),
       py_div = (\<lambda>x y. x / y),
       py_round2 = round_half_even2,
       py_positive = (\<lambda>x. 0 < x),
       sql_order = (\<lambda>rows. rows) \<rparr>"

definition info_aapl :: "rat ticker_info" where
  "info_aapl =
     \<lparr> shortName = Some ''Apple Inc.'', currency = Some ''USD'', sector = Some ''Technology'',
       marketCap = None, trailingPE = None \<rparr>"

text \<open>
  Three providers: one with no bar for any symbol, one whose only bar opens at 100 and
  closes at 120 for every symbol, and one that has this bar for \<open>AAPL\<close> and no bar for
  any other symbol.
\<close>

definition yf_no_bars :: "rat provider" where
  "yf_no_bars symbol = Inr (info_aapl, [])"

definition yf_one_bar :: "rat provider" where
  "yf_one_bar symbol = Inr (info_aapl, [\<lparr> bar_open = 100, bar_close = 120 \<rparr>])"

definition yf_aapl_only :: "rat provider" where
  "yf_aapl_only symbol =
     (if symbol = ''AAPL'' then Inr (info_aapl, [\<lparr> bar_open = 100, bar_close = 120 \<rparr>])
      else Inr (info_aapl, []))"

text \<open>A database with one holding of the user \<open>u\<close>, for a quantity and a buy price.\<close>

definition db_one_holding :: "rat \<Rightarrow> rat \<Rightarrow> rat db" where
  "db_one_holding qty price =
     \<lparr> holdings =
         [\<lparr> h_user_id = ''u'', h_symbol = ''AAPL'', h_quantity = qty, h_buy_price = price,
            h_buy_date = ''2024-01-02T10:00:00'' \<rparr>],
       alerts = [],
       transactions =
         [\<lparr> t_user_id = ''u'', t_symbol = ''AAPL'', t_action = ''BUY'', t_quantity = qty,
            t_price = price, t_date = ''2024-01-02T10:00:00'' \<rparr>] \<rparr>"

text \<open>A database in which the user \<open>u\<close> holds \<open>AAPL\<close> and \<open>ZZZZ\<close>.\<close>

definition aapl_holding :: "rat holding" where
  "aapl_holding =
     \<lparr> p_symbol = ''AAPL'', p_quantity = 10, p_buy_price = 100,
       p_buy_date = ''2024-01-02T10:00:00'' \<rparr>"

definition zzzz_holding :: "rat holding" where
  "zzzz_holding =
     \<lparr> p_symbol = ''ZZZZ'', p_quantity = 5, p_buy_price = 50,
       p_buy_date = ''2024-01-03T10:00:00'' \<rparr>"

definition db_two_holdings :: "rat db" where
  "db_two_holdings =
     \<lparr> holdings =
         [\<lparr> h_user_id = ''u'', h_symbol = ''AAPL'', h_quantity = 10, h_buy_price = 100,
            h_buy_date = ''2024-01-02T10:00:00'' \<rparr>,
          \<lparr> h_user_id = ''u'', h_symbol = ''ZZZZ'', h_quantity = 5, h_buy_price = 50,
            h_buy_date = ''2024-01-03T10:00:00'' \<rparr>],
       alerts = [],
       transactions = [] \<rparr>"

text \<open>The report entry and the report of the holding of 10 shares bought at 100, priced at 120.\<close>

definition aapl_entry :: "rat detail" where
  "aapl_entry =
     \<lparr> d_symbol = ''AAPL'', d_name = ''Apple Inc.'', d_quantity = 10, d_buy_price = 100,
       d_current_price = 120, d_current_value = 1200, d_cost_basis = 1000,
       d_profit_loss = 200, d_profit_loss_pct = 20 \<rparr>"

definition aapl_report :: "rat valuation" where
  "aapl_report =
     \<lparr> total_value = 1200, total_cost = 1000, total_profit_loss = 200,
       total_profit_loss_pct = 20, v_holdings = [aapl_entry] \<rparr>"

definition aapl_quote :: "rat quote" where
  "aapl_quote =
     \<lparr> q_symbol = ''AAPL'', q_name = ''Apple Inc.'', current_price = 120, q_currency = ''USD'',
       q_sector = ''Technology'', market_cap = 0, pe_ratio = Inl ''N/A'', day_change = 20 \<rparr>"

text \<open>
  The facts of arithmetic that the example of 10 shares bought at 100 and priced at 120
  rests on: 10 * 120 = 1200, 10 * 100 = 1000, 1200 - 1000 = 200, (200 / 1000) * 100 = 20,
  0 + 1200 = 1200, 0 + 1000 = 1000, 1000 > 0, and \<open>round(x, 2)\<close> leaves 1200, 1000, 200 and
  20 as they are. The numbers are the values of \<open>float\<close> on their literals.
\<close>

definition example_arithmetic :: "'n runtime \<Rightarrow> bool" where
  "example_arithmetic rt =
     (py_mul rt (py_float rt ''10'') (py_float rt ''120'') = py_float rt ''1200'' \<and>
      py_mul rt (py_float rt ''10'') (py_float rt ''100'') = py_float rt ''1000'' \<and>
      py_sub rt (py_float rt ''1200'') (py_float rt ''1000'') = py_float rt ''200'' \<and>
      py_mul rt (py_div rt (py_float rt ''200'') (py_float rt ''1000'')) (py_hundred rt) =
        py_float rt ''20'' \<and>
      py_add rt (py_zero rt) (py_float rt ''1200'') = py_float rt ''1200'' \<and>
      py_add rt (py_zero rt) (py_float rt ''1000'') = py_float rt ''1000'' \<and>
      py_positive rt (py_float rt ''1000'') \<and>
      py_round2 rt (py_float rt ''1200'') = py_float rt ''1200'' \<and>
      py_round2 rt (py_float rt ''1000'') = py_float rt ''1000'' \<and>
      py_round2 rt (py_float rt ''200'') = py_float rt ''200'' \<and>
      py_round2 rt (py_float rt ''20'') = py_float rt ''20'')"

section \<open>Properties of the intent classifier and the entity extractor\<close>

lemma classify_entities: "entities (classify_intent rt t) = extract_entities rt t"
  by (simp add: classify_intent_def split: option.splits)

lemma first_intent_member: "first_intent tbl t = Some n \<Longrightarrow> n \<in> set (map fst tbl)"
  by (induction tbl t rule: first_intent.induct) (auto split: if_splits)

lemma intent_names: "map fst intent_patterns =
  [''show_portfolio'', ''add_alert'', ''compare_stocks'', ''simulate'', ''add_holding'', ''stock_price'']"
  by (simp add: intent_patterns_def)

lemma classify_action:
  "action (classify_intent rt t) \<in> set [''show_portfolio'', ''add_alert'', ''compare_stocks'', ''simulate'', ''add_holding'', ''stock_price'']"
proof (cases "first_intent intent_patterns (lower t)")
  case None
  then show ?thesis by (simp add: classify_intent_def)
next
  case (Some n)
  then have "n \<in> set (map fst intent_patterns)" by (rule first_intent_member)
  with Some show ?thesis unfolding intent_names by (simp add: classify_intent_def)
qed

lemma extract_symbols_nonempty: "symbols (extract_entities rt t) = Some ss \<Longrightarrow> ss \<noteq> []"
  by (auto simp: extract_entities_def Let_def split: if_splits)

lemma extract_numbers_nonempty: "numbers (extract_entities rt t) = Some ns \<Longrightarrow> ns \<noteq> []"
  by (auto simp: extract_entities_def Let_def split: if_splits)

lemma value_loop_not_index: "value_loop rt api hs tv tc ds \<noteq> Inl IndexError"
  by (induction rt api hs tv tc ds rule: value_loop.induct) (auto split: sum.splits stock_info.splits)

lemma calculate_not_index: "calculate_portfolio_value rt sql api d u = (r, d') \<Longrightarrow> r \<noteq> Inl IndexError"
  using value_loop_not_index [of rt api _ "py_zero rt" "py_zero rt" "[]"]
  by (auto simp: calculate_portfolio_value_def get_portfolio_def split: option.splits sum.splits prod.splits if_splits)

lemma compare_loop_not_index: "compare_loop api ss c \<noteq> Inl IndexError"
  by (induction api ss c rule: compare_loop.induct) (auto split: sum.splits stock_info.splits)

lemma compare_not_index: "compare_stocks api ss \<noteq> Inl IndexError"
  using compare_loop_not_index [of api ss "[]"]
  by (auto simp: compare_stocks_def split: sum.splits)

lemma simulate_not_index: "simulate_purchase rt sql api d u s q = (r, d') \<Longrightarrow> r \<noteq> Inl IndexError"
  by (auto simp: simulate_purchase_def Let_def split: sum.splits stock_info.splits prod.splits dest: calculate_not_index)

lemma add_alert_not_index: "add_alert sql d u s c p n = (r, d') \<Longrightarrow> r \<noteq> Inl IndexError"
  by (auto simp: add_alert_def split: option.splits)

lemma add_holding_not_index: "add_holding sql d u s q p n1 n2 = (r, d') \<Longrightarrow> r \<noteq> Inl IndexError"
  by (auto simp: add_holding_def split: option.splits)

lemma py_index_0: "xs \<noteq> [] \<Longrightarrow> py_index xs 0 = Inr (hd xs)"
  by (cases xs) (simp_all add: py_index_def)

lemma py_index_1: "2 \<le> length xs \<Longrightarrow> py_index xs (Suc 0) = Inr (xs ! Suc 0)"
  by (simp add: py_index_def)

lemma dispatch_not_index:
  assumes s: "\<And>ss. symbols (entities i) = Some ss \<Longrightarrow> ss \<noteq> []"
      and n: "\<And>ns. numbers (entities i) = Some ns \<Longrightarrow> ns \<noteq> []"
      and r: "dispatch rt sql api n1 n2 d u i = (r, d')"
  shows "r \<noteq> Inl IndexError"
proof -
  consider (a) "action i = ''show_portfolio''" | (b) "action i = ''add_alert''"
    | (c) "action i = ''compare_stocks''" | (d) "action i = ''simulate''"
    | (e) "action i = ''add_holding''" | (f) "action i = ''stock_price''"
    | (g) "action i \<notin> set [''show_portfolio'', ''add_alert'', ''compare_stocks'', ''simulate'', ''add_holding'', ''stock_price'']"
    by auto
  then show ?thesis
  proof cases
    case a
    with r show ?thesis by (auto simp: dispatch_def Let_def dest: calculate_not_index)
  next
    case b
    with r s n show ?thesis
      by (auto simp: dispatch_def Let_def py_index_0 split: option.splits prod.splits sum.splits dest: add_alert_not_index)
  next
    case c
    with r show ?thesis
      by (auto simp: dispatch_def Let_def compare_not_index split: option.splits if_splits)
  next
    case d
    with r s n show ?thesis
      by (auto simp: dispatch_def Let_def py_index_0 split: option.splits dest: simulate_not_index)
  next
    case e
    with r s n show ?thesis
      by (auto simp: dispatch_def Let_def py_index_0 py_index_1 split: option.splits if_splits prod.splits sum.splits dest: add_holding_not_index)
  next
    case f
    with r s show ?thesis
      by (auto simp: dispatch_def Let_def py_index_0 split: option.splits sum.splits)
  next
    case g
    with r show ?thesis by (auto simp: dispatch_def Let_def)
  qed
qed

text \<open>
  C10. Whenever the entity dictionary that \<open>extract_entities rt\<close> returns has the key
  \<open>symbols\<close>, its list is not empty, and the same holds for \<open>numbers\<close>. Hence no branch
  of the chat endpoint raises \<open>IndexError\<close> on the entities of a classified message.
\<close>

theorem extract_entities_lists_nonempty:
  "(symbols (extract_entities rt t) = Some ss \<longrightarrow> ss \<noteq> []) \<and>
   (numbers (extract_entities rt t) = Some ns \<longrightarrow> ns \<noteq> []) \<and>
   fst (dispatch rt sql api now1 now2 d user_id (classify_intent rt t)) \<noteq> Inl IndexError"
proof -
  obtain r d' where r: "dispatch rt sql api now1 now2 d user_id (classify_intent rt t) = (r, d')"
    by (cases "dispatch rt sql api now1 now2 d user_id (classify_intent rt t)")
  have "r \<noteq> Inl IndexError"
    using r by (rule dispatch_not_index [rotated 2])
      (simp_all add: classify_entities extract_symbols_nonempty extract_numbers_nonempty)
  with r show ?thesis
    by (simp add: extract_symbols_nonempty extract_numbers_nonempty)
qed

theorem extract_entities_lists_nonempty_witness:
  "symbols (extract_entities exact ''AAPL 10'') = Some [''AAPL''] \<and>
   numbers (extract_entities exact ''AAPL 10'') = Some [10] \<and>
   [''AAPL''] \<noteq> ([] :: string list) \<and> [10] \<noteq> ([] :: rat list)"
proof -
  have s: "symbols (extract_entities exact ''AAPL 10'') = Some [''AAPL'']" by code_simp
  have n: "numbers (extract_entities exact ''AAPL 10'') = Some [10]" by code_simp
  show ?thesis
    using s n extract_entities_lists_nonempty [of exact "''AAPL 10''" "[''AAPL'']" "[10]"]
    by simp
qed

lemma fallback_distinct:
  "''No holdings found in portfolio'' \<noteq> didnt_understand"
  "''Please specify symbol, price, and condition (above/below)'' \<noteq> didnt_understand"
  "''Please specify at least 2 stock symbols to compare'' \<noteq> didnt_understand"
  "''Please specify symbol and quantity for simulation'' \<noteq> didnt_understand"
  "''Please specify symbol, quantity, and purchase price'' \<noteq> didnt_understand"
  "''Please specify a stock symbol'' \<noteq> didnt_understand"
  by (simp_all add: didnt_understand_def)

lemma calculate_not_fallback:
  "calculate_portfolio_value rt sql api d u = (r, d') \<Longrightarrow> r \<noteq> Inr (Message didnt_understand)"
  by (auto simp: calculate_portfolio_value_def get_portfolio_def fallback_distinct
      split: option.splits sum.splits prod.splits if_splits)

lemma simulate_not_fallback:
  "simulate_purchase rt sql api d u s q = (r, d') \<Longrightarrow> r \<noteq> Inr (Message didnt_understand)"
  by (auto simp: simulate_purchase_def Let_def split: sum.splits stock_info.splits prod.splits)

lemma compare_not_fallback: "compare_stocks api ss \<noteq> Inr (Message didnt_understand)"
  by (auto simp: compare_stocks_def split: sum.splits)

lemma dispatch_not_fallback:
  assumes a: "action i \<in> set [''show_portfolio'', ''add_alert'', ''compare_stocks'', ''simulate'', ''add_holding'', ''stock_price'']"
      and r: "dispatch rt sql api n1 n2 d u i = (r, d')"
  shows "r \<noteq> Inr (Message didnt_understand)"
proof -
  from a consider (a) "action i = ''show_portfolio''" | (b) "action i = ''add_alert''"
    | (c) "action i = ''compare_stocks''" | (d) "action i = ''simulate''"
    | (e) "action i = ''add_holding''" | (f) "action i = ''stock_price''"
    by auto
  then show ?thesis
  proof cases
    case a
    with r show ?thesis by (auto simp: dispatch_def Let_def dest: calculate_not_fallback)
  next
    case b
    with r show ?thesis
      by (auto simp: dispatch_def Let_def fallback_distinct split: option.splits prod.splits sum.splits)
  next
    case c
    with r show ?thesis
      by (auto simp: dispatch_def Let_def compare_not_fallback fallback_distinct split: option.splits if_splits)
  next
    case d
    with r show ?thesis
      by (auto simp: dispatch_def Let_def fallback_distinct split: option.splits sum.splits dest: simulate_not_fallback)
  next
    case e
    with r show ?thesis
      by (auto simp: dispatch_def Let_def fallback_distinct split: option.splits if_splits prod.splits sum.splits)
  next
    case f
    with r show ?thesis
      by (auto simp: dispatch_def Let_def fallback_distinct split: option.splits sum.splits)
  qed
qed

text \<open>
  C9. For every text, the action that \<open>classify_intent rt\<close> returns is one of the six
  intents of the table, so the last \<open>else\<close> of the chat endpoint is never taken: no
  message gets the "I didn't understand" response.
\<close>

theorem classify_intent_known_action:
  "action (classify_intent rt t) \<in>
     set [''show_portfolio'', ''add_alert'', ''compare_stocks'', ''simulate'', ''add_holding'', ''stock_price''] \<and>
   env_response (fst (chat_endpoint rt sql api now1 now2 d user_id t)) \<noteq> Message didnt_understand"
proof -
  obtain r d' where r: "dispatch rt sql api now1 now2 d user_id (classify_intent rt t) = (r, d')"
    by (cases "dispatch rt sql api now1 now2 d user_id (classify_intent rt t)")
  have "r \<noteq> Inr (Message didnt_understand)"
    using classify_action r by (rule dispatch_not_fallback)
  with r have "env_response (fst (chat_endpoint rt sql api now1 now2 d user_id t)) \<noteq> Message didnt_understand"
    by (cases r) (simp_all add: chat_endpoint_def Let_def)
  with classify_action show ?thesis by blast
qed

subsection \<open>Recording a purchase without numbers\<close>

lemma i_bought_aapl_parts:
  "first_intent intent_patterns (lower ''i bought aapl'') = Some ''add_holding''"
  "findall symbol_match (upper ''i bought aapl'') = [''AAPL'']"
  "findall number_match ''i bought aapl'' = []"
  "contains ''above'' (lower ''i bought aapl'') = False"
  "contains ''over'' (lower ''i bought aapl'') = False"
  "contains ''higher'' (lower ''i bought aapl'') = False"
  "contains ''below'' (lower ''i bought aapl'') = False"
  "contains ''under'' (lower ''i bought aapl'') = False"
  "contains ''lower'' (lower ''i bought aapl'') = False"
  by code_simp+

lemma classify_i_bought_aapl:
  "classify_intent rt ''i bought aapl'' =
     \<lparr> action = ''add_holding'',
       entities = \<lparr> symbols = Some [''AAPL''], numbers = None, condition = None \<rparr>,
       confidence = 8 / 10 \<rparr>"
  by (simp add: classify_intent_def extract_entities_def i_bought_aapl_parts)

text \<open>
  C1. The message \<open>i bought aapl\<close> is classified as \<open>add_holding\<close> with a symbol and no
  number. The branch reads \<open>intent.entities['numbers']\<close> without testing that the key is
  there, so the guidance message "Please specify symbol, quantity, and purchase price" is
  not returned: the \<open>KeyError\<close> becomes the error response. The store is not written.
\<close>

theorem add_holding_without_numbers:
  "chat_endpoint rt sql api now1 now2 d user_id ''i bought aapl'' =
     (\<lparr> env_intent =
          \<lparr> action = ''add_holding'',
            entities = \<lparr> symbols = Some [''AAPL''], numbers = None, condition = None \<rparr>,
            confidence = 8 / 10 \<rparr>,
        env_response = Error (''An error occurred: '' @ [CHR 0x27] @ ''numbers'' @ [CHR 0x27]) \<rparr>,
      d)"
  by (simp add: chat_endpoint_def classify_i_bought_aapl dispatch_def)

subsection \<open>The fallback intent\<close>

lemma first_intent_None:
  "first_intent tbl t = None \<longleftrightarrow>
     (\<forall>(name, ps) \<in> set tbl. \<forall>p \<in> set ps. \<not> re_search (parse_pattern p) t)"
  by (induction tbl t rule: first_intent.induct) (auto simp: list_ex_iff)

lemma xyz_parts:
  "first_intent intent_patterns (lower ''xyz'') = None"
  "findall symbol_match (upper ''xyz'') = [''XYZ'']"
  "findall number_match ''xyz'' = []"
  "contains ''above'' (lower ''xyz'') = False"
  "contains ''over'' (lower ''xyz'') = False"
  "contains ''higher'' (lower ''xyz'') = False"
  "contains ''below'' (lower ''xyz'') = False"
  "contains ''under'' (lower ''xyz'') = False"
  "contains ''lower'' (lower ''xyz'') = False"
  by code_simp+

text \<open>
  C2, as amended. For every text that no pattern of the table matches, \<open>classify_intent rt\<close>
  returns the action \<open>stock_price\<close> with confidence 0.5 and the entities that
  \<open>extract_entities rt\<close> computes on the original text. For the text \<open>xyz\<close> these entities
  are the one symbol \<open>XYZ\<close>, because symbols are searched in the uppercased text.
  The classifier is a total function.
\<close>

theorem classify_intent_fallback:
  "((\<forall>(name, ps) \<in> set intent_patterns. \<forall>p \<in> set ps. \<not> re_search (parse_pattern p) (lower text)) \<longrightarrow>
      classify_intent rt text =
        \<lparr> action = ''stock_price'', entities = extract_entities rt text, confidence = 5 / 10 \<rparr>) \<and>
   classify_intent rt ''xyz'' =
     \<lparr> action = ''stock_price'',
       entities = \<lparr> symbols = Some [''XYZ''], numbers = None, condition = None \<rparr>,
       confidence = 5 / 10 \<rparr>"
proof -
  have "classify_intent rt ''xyz'' =
     \<lparr> action = ''stock_price'',
       entities = \<lparr> symbols = Some [''XYZ''], numbers = None, condition = None \<rparr>,
       confidence = 5 / 10 \<rparr>"
    by (simp add: classify_intent_def extract_entities_def xyz_parts)
  then show ?thesis
    by (simp add: classify_intent_def first_intent_None [symmetric])
qed

theorem classify_intent_fallback_witness:
  "list_all (\<lambda>(name, ps). list_all (\<lambda>p. \<not> re_search (parse_pattern p) (lower ''what about x'')) ps) intent_patterns \<and>
   classify_intent exact ''what about x'' =
     \<lparr> action = ''stock_price'', entities = extract_entities exact ''what about x'', confidence = 5 / 10 \<rparr>"
proof -
  have h: "list_all (\<lambda>(name, ps). list_all (\<lambda>p. \<not> re_search (parse_pattern p) (lower ''what about x'')) ps) intent_patterns"
    by code_simp
  then have "\<forall>(name, ps) \<in> set intent_patterns. \<forall>p \<in> set ps. \<not> re_search (parse_pattern p) (lower ''what about x'')"
    by (auto simp: list_all_iff)
  with h classify_intent_fallback [of "''what about x''" exact] show ?thesis by blast
qed

text \<open>The entity dictionary of \<open>xyz\<close> is not empty.\<close>

theorem xyz_entities_counterexample:
  "entities (classify_intent exact ''xyz'') \<noteq> \<lparr> symbols = None, numbers = None, condition = None \<rparr>"
proof -
  have "symbols (entities (classify_intent exact ''xyz'')) = Some [''XYZ'']" by code_simp
  then show ?thesis by auto
qed

section \<open>Properties of the portfolio database\<close>

lemma insert_or_replace_distinct:
  "distinct (map row_key rows) \<Longrightarrow> distinct (map row_key (insert_or_replace r rows))"
  by (auto simp: insert_or_replace_def same_key_def row_key_def distinct_map_filter)

lemma add_holding_distinct:
  "distinct (map row_key (holdings d)) \<Longrightarrow>
   distinct (map row_key (holdings (snd (add_holding sql d u s q p n1 n2))))"
  by (cases sql) (simp_all add: add_holding_def insert_or_replace_distinct)

lemma run_calls_distinct:
  "distinct (map row_key (holdings d)) \<Longrightarrow> distinct (map row_key (holdings (run_calls d cs)))"
proof (induction cs arbitrary: d)
  case Nil
  then show ?case by simp
next
  case (Cons c cs)
  then show ?case by (cases c) (simp add: add_holding_distinct)
qed

lemma distinct_filter_key:
  "distinct (map row_key rows) \<Longrightarrow> length (filter (\<lambda>r. row_key r = k) rows) \<le> 1"
proof (induction rows)
  case Nil
  then show ?case by simp
next
  case (Cons r rows)
  show ?case
  proof (cases "row_key r = k")
    case True
    from Cons.prems have "row_key r \<notin> row_key ` set rows" by simp
    with True have "\<And>x. x \<in> set rows \<Longrightarrow> row_key x \<noteq> k" by blast
    then have "filter (\<lambda>r. row_key r = k) rows = []"
      by (simp add: filter_empty_conv)
    with True show ?thesis by simp
  next
    case False
    with Cons show ?thesis by simp
  qed
qed

lemma rows_for_key: "rows_for d u s = filter (\<lambda>r. row_key r = (u, s)) (holdings d)"
  by (simp add: rows_for_def row_key_def)

lemma run_calls_unique: "length (rows_for (run_calls init_database cs) u s) \<le> 1"
  unfolding rows_for_key
  by (rule distinct_filter_key, rule run_calls_distinct) (simp add: init_database_def)

lemma run_calls_transactions:
  "length (transactions (run_calls d cs)) = length (transactions d) + length (filter succeeded cs)"
proof (induction cs arbitrary: d)
  case Nil
  then show ?case by simp
next
  case (Cons c cs)
  obtain sql u s q p n1 n2 where c: "c = AddHolding sql u s q p n1 n2" by (cases c)
  show ?case by (cases sql) (simp_all add: c Cons.IH add_holding_def)
qed

lemma run_calls_buy:
  "list_all (\<lambda>t. t_action t = ''BUY'') (transactions d) \<Longrightarrow>
   list_all (\<lambda>t. t_action t = ''BUY'') (transactions (run_calls d cs))"
proof (induction cs arbitrary: d)
  case Nil
  then show ?case by simp
next
  case (Cons c cs)
  obtain sql u s q p n1 n2 where c: "c = AddHolding sql u s q p n1 n2" by (cases c)
  show ?case using Cons.prems by (cases sql) (auto simp: c add_holding_def intro!: Cons.IH)
qed

lemma add_holding_rows_for:
  "rows_for (snd (add_holding None d u s q p n1 n2)) u' s' =
     (if u' = u \<and> s' = s
      then [\<lparr> h_user_id = u, h_symbol = s, h_quantity = q, h_buy_price = p, h_buy_date = n1 \<rparr>]
      else rows_for d u' s')"
  by (auto simp: add_holding_def rows_for_def insert_or_replace_def same_key_def filter_empty_conv
      intro: filter_cong)

text \<open>
  C7. After any sequence of \<open>add_holding\<close> calls on a new database there is at most one
  holding row for a user and a symbol. A call that succeeds leaves exactly the new row
  for its user and symbol (quantity, price and date of the call: the earlier row is
  replaced, nothing is accumulated), leaves the rows of the other keys as they were, and
  appends one transaction with action \<open>BUY\<close>; so the transactions are as many as the
  calls that succeeded. A call whose \<open>sqlite3\<close> calls raise changes nothing.
\<close>

theorem add_holding_replaces:
  "length (rows_for (run_calls init_database cs) user_id' symbol') \<le> 1 \<and>
   list_all (\<lambda>t. t_action t = ''BUY'') (transactions (run_calls init_database cs)) \<and>
   length (transactions (run_calls init_database cs)) = length (filter succeeded cs) \<and>
   rows_for (snd (add_holding None d user_id symbol qty price now1 now2)) user_id' symbol' =
     (if user_id' = user_id \<and> symbol' = symbol
      then [\<lparr> h_user_id = user_id, h_symbol = symbol, h_quantity = qty, h_buy_price = price,
              h_buy_date = now1 \<rparr>]
      else rows_for d user_id' symbol') \<and>
   transactions (snd (add_holding None d user_id symbol qty price now1 now2)) =
     transactions d @
       [\<lparr> t_user_id = user_id, t_symbol = symbol, t_action = ''BUY'', t_quantity = qty,
          t_price = price, t_date = now2 \<rparr>] \<and>
   add_holding (Some m) d user_id symbol qty price now1 now2 = (Inl (StoreFault m), d)"
proof -
  have "list_all (\<lambda>t. t_action t = ''BUY'') (transactions (run_calls init_database cs))"
    by (rule run_calls_buy) (simp add: init_database_def)
  moreover have "length (transactions (run_calls init_database cs)) = length (filter succeeded cs)"
    by (simp add: run_calls_transactions init_database_def)
  moreover have "transactions (snd (add_holding None d user_id symbol qty price now1 now2)) =
     transactions d @
       [\<lparr> t_user_id = user_id, t_symbol = symbol, t_action = ''BUY'', t_quantity = qty,
          t_price = price, t_date = now2 \<rparr>]"
    by (simp add: add_holding_def)
  moreover have "add_holding (Some m) d user_id symbol qty price now1 now2 = (Inl (StoreFault m), d)"
    by (simp add: add_holding_def)
  ultimately show ?thesis
    using run_calls_unique [of cs user_id' symbol'] add_holding_rows_for [of d user_id symbol qty price now1 now2 user_id' symbol']
    by blast
qed

theorem add_holding_replaces_witness:
  "run_calls init_database
     [AddHolding None ''u'' ''AAPL'' (10 :: rat) 150 ''t1'' ''t2'',
      AddHolding None ''u'' ''AAPL'' 5 160 ''t3'' ''t4''] =
   \<lparr> holdings =
       [\<lparr> h_user_id = ''u'', h_symbol = ''AAPL'', h_quantity = 5, h_buy_price = 160,
          h_buy_date = ''t3'' \<rparr>],
     alerts = [],
     transactions =
       [\<lparr> t_user_id = ''u'', t_symbol = ''AAPL'', t_action = ''BUY'', t_quantity = 10,
          t_price = 150, t_date = ''t2'' \<rparr>,
        \<lparr> t_user_id = ''u'', t_symbol = ''AAPL'', t_action = ''BUY'', t_quantity = 5,
          t_price = 160, t_date = ''t4'' \<rparr>] \<rparr> \<and>
   length (rows_for (run_calls init_database
     [AddHolding None ''u'' ''AAPL'' (10 :: rat) 150 ''t1'' ''t2'',
      AddHolding None ''u'' ''AAPL'' 5 160 ''t3'' ''t4'']) ''u'' ''AAPL'') \<le> 1"
proof -
  have "run_calls init_database
     [AddHolding None ''u'' ''AAPL'' (10 :: rat) 150 ''t1'' ''t2'',
      AddHolding None ''u'' ''AAPL'' 5 160 ''t3'' ''t4''] =
   \<lparr> holdings =
       [\<lparr> h_user_id = ''u'', h_symbol = ''AAPL'', h_quantity = 5, h_buy_price = 160,
          h_buy_date = ''t3'' \<rparr>],
     alerts = [],
     transactions =
       [\<lparr> t_user_id = ''u'', t_symbol = ''AAPL'', t_action = ''BUY'', t_quantity = 10,
          t_price = 150, t_date = ''t2'' \<rparr>,
        \<lparr> t_user_id = ''u'', t_symbol = ''AAPL'', t_action = ''BUY'', t_quantity = 5,
          t_price = 160, t_date = ''t4'' \<rparr>] \<rparr>"
    by (simp add: init_database_def add_holding_def insert_or_replace_def same_key_def)
  moreover have "length (rows_for (run_calls init_database
     [AddHolding None ''u'' ''AAPL'' (10 :: rat) 150 ''t1'' ''t2'',
      AddHolding None ''u'' ''AAPL'' 5 160 ''t3'' ''t4'']) ''u'' ''AAPL'') \<le> 1"
    using add_holding_replaces [of "[AddHolding None ''u'' ''AAPL'' (10 :: rat) 150 ''t1'' ''t2'',
      AddHolding None ''u'' ''AAPL'' 5 160 ''t3'' ''t4'']" "''u''" "''AAPL''"]
    by (rule conjunct1)
  ultimately show ?thesis by (rule conjI)
qed

section \<open>Properties of the market data API\<close>

text \<open>
  C8, as amended. When the provider has bars for the symbol, the quote's \<open>day_change\<close> is
  \<open>round(close - open, 2)\<close> on the last bar. When it has no bar, the API returns the
  failure dictionary "No data found for ..." and no \<open>day_change\<close> at all: the guard on
  \<open>hist.empty\<close> comes first. An exception of the provider becomes the failure dictionary
  "Error fetching data for ...".
\<close>

theorem get_stock_info_day_change:
  "(yf symbol = Inr (info, hist) \<and> hist \<noteq> [] \<longrightarrow>
      day_change_of (get_stock_info rt yf symbol) =
        Some (py_round2 rt (py_sub rt (bar_close (last hist)) (bar_open (last hist))))) \<and>
   (yf symbol = Inr (info, []) \<longrightarrow>
      get_stock_info rt yf symbol = StockError (''No data found for '' @ symbol) \<and>
      day_change_of (get_stock_info rt yf symbol) = None) \<and>
   (yf symbol = Inl e \<longrightarrow>
      get_stock_info rt yf symbol =
        StockError (''Error fetching data for '' @ symbol @ '': '' @ e))"
  by (simp add: get_stock_info_def)

theorem get_stock_info_day_change_witness:
  "yf_one_bar ''AAPL'' = Inr (info_aapl, [\<lparr> bar_open = 100, bar_close = 120 \<rparr>]) \<and>
   [\<lparr> bar_open = 100 :: rat, bar_close = 120 \<rparr>] \<noteq> [] \<and>
   day_change_of (get_stock_info exact yf_one_bar ''AAPL'') = Some 20"
proof -
  have h: "yf_one_bar ''AAPL'' = Inr (info_aapl, [\<lparr> bar_open = 100, bar_close = 120 \<rparr>])"
    by (simp add: yf_one_bar_def)
  have r: "py_round2 exact (py_sub exact 120 100) = 20" by code_simp
  show ?thesis
    using h r get_stock_info_day_change [of yf_one_bar "''AAPL''" info_aapl
        "[\<lparr> bar_open = 100, bar_close = 120 \<rparr>]" exact]
    by simp
qed

text \<open>With no bar the result is the failure dictionary: it has no \<open>day_change\<close>, so not 0.\<close>

theorem no_bars_counterexample:
  "get_stock_info exact yf_no_bars ''AAPL'' = StockError ''No data found for AAPL'' \<and>
   day_change_of (get_stock_info exact yf_no_bars ''AAPL'') \<noteq> Some 0"
  by (simp add: get_stock_info_def yf_no_bars_def)

section \<open>Properties of the analytics engine\<close>

lemma get_portfolio_db: "snd (get_portfolio rt sql d u) = d"
  by (simp add: get_portfolio_def split: option.splits)

lemma calculate_db: "snd (calculate_portfolio_value rt sql api d u) = d"
  using get_portfolio_db [of rt sql d u]
  by (cases "get_portfolio rt sql d u")
     (auto simp: calculate_portfolio_value_def split: sum.splits prod.splits)

text \<open>
  C6. \<open>simulate_purchase rt\<close> returns the database it was given, whatever the user, the
  symbol, the quantity, the market API and the outcome of the \<open>sqlite3\<close> calls; and when
  the quote lookup returns a failure dictionary, that dictionary is the whole result.
\<close>

theorem simulate_purchase_no_write:
  "snd (simulate_purchase rt sql api d user_id symbol qty) = d \<and>
   (api symbol = Inr (StockError m) \<longrightarrow>
      fst (simulate_purchase rt sql api d user_id symbol qty) = Inr (StockInfoDict (StockError m)))"
  using calculate_db [of rt sql api d user_id]
  by (cases "calculate_portfolio_value rt sql api d user_id")
     (auto simp: simulate_purchase_def Let_def split: sum.splits stock_info.splits)

theorem simulate_purchase_no_write_witness:
  "market_data_api exact yf_no_bars ''AAPL'' = Inr (StockError ''No data found for AAPL'') \<and>
   simulate_purchase exact None (market_data_api exact yf_no_bars) (db_one_holding 10 100) ''u'' ''AAPL'' 5 =
     (Inr (StockInfoDict (StockError ''No data found for AAPL'')), db_one_holding 10 100)"
proof -
  have h: "market_data_api exact yf_no_bars ''AAPL'' = Inr (StockError ''No data found for AAPL'')"
    by (simp add: market_data_api_def get_stock_info_def yf_no_bars_def)
  show ?thesis
    using h simulate_purchase_no_write [of exact None "market_data_api exact yf_no_bars" "db_one_holding 10 100" "''u''" "''AAPL''" 5 "''No data found for AAPL''"]
    by (simp add: prod_eq_iff)
qed

section \<open>Faults at the chat endpoint\<close>

lemma calculate_store_fault:
  "calculate_portfolio_value rt (Some m) api d u = (Inl (StoreFault m), d)"
  by (simp add: calculate_portfolio_value_def get_portfolio_def)

lemma simulate_store_fault:
  "simulate_purchase rt (Some m) api d u s q = (Inl (StoreFault m), d) \<or>
   simulate_purchase rt (Some m) api d u s q = simulate_purchase rt None api d u s q"
  by (auto simp: simulate_purchase_def calculate_store_fault split: sum.splits stock_info.splits)

lemma dispatch_store_fault:
  "dispatch rt (Some m) api n1 n2 d u i = (Inl (StoreFault m), d) \<or>
   dispatch rt (Some m) api n1 n2 d u i = dispatch rt None api n1 n2 d u i"
proof -
  consider (a) "action i = ''show_portfolio''" | (b) "action i = ''add_alert''"
    | (c) "action i = ''compare_stocks''" | (d) "action i = ''simulate''"
    | (e) "action i = ''add_holding''" | (f) "action i = ''stock_price''"
    | (g) "action i \<notin> set [''show_portfolio'', ''add_alert'', ''compare_stocks'', ''simulate'', ''add_holding'', ''stock_price'']"
    by auto
  then show ?thesis
  proof cases
    case a
    then show ?thesis by (simp add: dispatch_def Let_def calculate_store_fault)
  next
    case b
    then show ?thesis
      by (auto simp: dispatch_def Let_def add_alert_def split: option.splits sum.splits)
  next
    case c
    then show ?thesis by (simp add: dispatch_def Let_def)
  next
    case d
    then show ?thesis
      using simulate_store_fault [of rt m api d u]
      by (auto simp: dispatch_def Let_def split: option.splits sum.splits)
  next
    case e
    then show ?thesis
      by (auto simp: dispatch_def Let_def add_holding_def split: option.splits sum.splits)
  next
    case f
    then show ?thesis by (simp add: dispatch_def Let_def)
  next
    case g
    then show ?thesis by (simp add: dispatch_def Let_def)
  qed
qed

lemma chat_endpoint_intent:
  "env_intent (fst (chat_endpoint rt sql api n1 n2 d u msg)) = classify_intent rt msg"
  by (cases "dispatch rt sql api n1 n2 d u (classify_intent rt msg)")
     (simp add: chat_endpoint_def Let_def split: sum.splits)

lemma chat_endpoint_fault:
  "fst (dispatch rt sql api n1 n2 d u (classify_intent rt msg)) = Inl f \<Longrightarrow>
   env_response (fst (chat_endpoint rt sql api n1 n2 d u msg)) =
     Error (''An error occurred: '' @ str_of_fault f)"
  by (cases "dispatch rt sql api n1 n2 d u (classify_intent rt msg)")
     (simp add: chat_endpoint_def Let_def)

lemma chat_endpoint_store_fault:
  "env_response (fst (chat_endpoint rt (Some m) api n1 n2 d u msg)) = Error (''An error occurred: '' @ m) \<or>
   chat_endpoint rt (Some m) api n1 n2 d u msg = chat_endpoint rt None api n1 n2 d u msg"
  using dispatch_store_fault [of rt m api n1 n2 d u "classify_intent rt msg"]
  by (auto simp: chat_endpoint_def Let_def)

lemma dispatch_gateway_fault:
  "action i = ''stock_price'' \<Longrightarrow> symbols (entities i) = Some (s # ss) \<Longrightarrow> api s = Inl e \<Longrightarrow>
   dispatch rt sql api n1 n2 d u i = (Inl (GatewayFault e), d)"
  by (simp add: dispatch_def Let_def py_index_def)

text \<open>
  The repository's own market API catches the exceptions of the provider inside
  \<open>get_stock_info rt\<close>, so it never raises; the \<open>try\<close> of the endpoint covers any market API.
\<close>

lemma market_data_api_never_raises: "market_data_api rt yf symbol \<noteq> Inl e"
  by (simp add: market_data_api_def)

text \<open>
  C3. For every user, message, database, market API and outcome of the \<open>sqlite3\<close> calls,
  the chat endpoint returns an envelope whose intent is the classified intent of the
  message. Whenever the branch raises a fault, the response is the error dictionary with
  the string "An error occurred: ..." followed by the fault's message, which is not
  empty. In particular a fault of the store gives that response, unless the branch made
  no store call, in which case the result is the one of the run without the fault; and an
  exception of the market API in the \<open>stock_price\<close> branch gives that response. The
  endpoint is a total function: no fault reaches its caller.
\<close>

theorem chat_endpoint_catches_faults:
  "env_intent (fst (chat_endpoint rt sql api now1 now2 d user_id message)) = classify_intent rt message \<and>
   (fst (dispatch rt sql api now1 now2 d user_id (classify_intent rt message)) = Inl f \<longrightarrow>
      env_response (fst (chat_endpoint rt sql api now1 now2 d user_id message)) =
        Error (''An error occurred: '' @ str_of_fault f) \<and>
      error_of (env_response (fst (chat_endpoint rt sql api now1 now2 d user_id message))) \<noteq> Some []) \<and>
   (env_response (fst (chat_endpoint rt (Some m) api now1 now2 d user_id message)) =
      Error (''An error occurred: '' @ m) \<or>
    chat_endpoint rt (Some m) api now1 now2 d user_id message =
      chat_endpoint rt None api now1 now2 d user_id message) \<and>
   (action (classify_intent rt message) = ''stock_price'' \<and>
    symbols (entities (classify_intent rt message)) = Some (s # ss) \<and> api s = Inl e \<longrightarrow>
      env_response (fst (chat_endpoint rt sql api now1 now2 d user_id message)) =
        Error (''An error occurred: '' @ e))"
proof -
  have "fst (dispatch rt sql api now1 now2 d user_id (classify_intent rt message)) = Inl f \<longrightarrow>
      env_response (fst (chat_endpoint rt sql api now1 now2 d user_id message)) =
        Error (''An error occurred: '' @ str_of_fault f) \<and>
      error_of (env_response (fst (chat_endpoint rt sql api now1 now2 d user_id message))) \<noteq> Some []"
    by (simp add: chat_endpoint_fault)
  moreover have "action (classify_intent rt message) = ''stock_price'' \<and>
    symbols (entities (classify_intent rt message)) = Some (s # ss) \<and> api s = Inl e \<longrightarrow>
      env_response (fst (chat_endpoint rt sql api now1 now2 d user_id message)) =
        Error (''An error occurred: '' @ e)"
    using chat_endpoint_fault [of rt sql api now1 now2 d user_id message "GatewayFault e"]
    by (auto simp: dispatch_gateway_fault)
  ultimately show ?thesis
    using chat_endpoint_intent [of rt sql api now1 now2 d user_id message]
      chat_endpoint_store_fault [of rt m api now1 now2 d user_id message]
    by blast
qed

lemma show_my_portfolio_intent:
  "first_intent intent_patterns (lower ''show my portfolio'') = Some ''show_portfolio''"
  by code_simp

lemma classify_show_my_portfolio:
  "action (classify_intent rt ''show my portfolio'') = ''show_portfolio''"
  by (simp add: classify_intent_def show_my_portfolio_intent)

theorem chat_endpoint_catches_faults_witness:
  "fst (dispatch exact (Some ''database is locked'') (market_data_api exact yf_one_bar) ''t1'' ''t2''
          (db_one_holding 10 100) ''u'' (classify_intent exact ''show my portfolio'')) =
     Inl (StoreFault ''database is locked'') \<and>
   env_response (fst (chat_endpoint exact (Some ''database is locked'') (market_data_api exact yf_one_bar)
          ''t1'' ''t2'' (db_one_holding 10 100) ''u'' ''show my portfolio'')) =
     Error ''An error occurred: database is locked''"
proof -
  have h: "fst (dispatch exact (Some ''database is locked'') (market_data_api exact yf_one_bar) ''t1'' ''t2''
          (db_one_holding 10 100) ''u'' (classify_intent exact ''show my portfolio'')) =
     Inl (StoreFault ''database is locked'')"
    by (simp add: dispatch_def Let_def classify_show_my_portfolio calculate_store_fault)
  show ?thesis
    using h chat_endpoint_catches_faults [of exact "Some ''database is locked''" "market_data_api exact yf_one_bar"
        "''t1''" "''t2''" "db_one_holding 10 100" "''u''" "''show my portfolio''"
        "StoreFault ''database is locked''"]
    by simp
qed

section \<open>Properties of the portfolio valuation\<close>

lemma value_loop_priced:
  "value_loop rt (market_data_api rt yf) hs tv tc ds =
     Inr (foldl (py_add rt) tv
            (map (\<lambda>(h, q). py_mul rt (p_quantity h) (current_price q)) (priced_pairs rt yf hs)),
          foldl (py_add rt) tc
            (map (\<lambda>(h, q). py_mul rt (p_quantity h) (p_buy_price h)) (priced_pairs rt yf hs)),
          ds @ map (\<lambda>(h, q). detail_of rt h q) (priced_pairs rt yf hs))"
proof (induction hs arbitrary: tv tc ds)
  case Nil
  then show ?case by simp
next
  case (Cons h hs)
  show ?case
  proof (cases "get_stock_info rt yf (p_symbol h)")
    case (StockError m)
    then show ?thesis
      using Cons.IH [of tv tc ds]
      by (simp add: market_data_api_def)
  next
    case (StockQuote q)
    then show ?thesis
      using Cons.IH [of "py_add rt tv (py_mul rt (p_quantity h) (current_price q))"
          "py_add rt tc (py_mul rt (p_quantity h) (p_buy_price h))" "ds @ [detail_of rt h q]"]
      by (simp add: market_data_api_def)
  qed
qed

lemma priced_pairs_filter: "map fst (priced_pairs rt yf hs) = filter (priced rt yf) hs"
  by (induction hs) (auto simp: priced_def split: stock_info.splits)

lemma priced_pairs_idem: "priced_pairs rt yf (filter (priced rt yf) hs) = priced_pairs rt yf hs"
  by (induction hs) (auto simp: priced_def split: stock_info.splits)

lemma priced_pairs_iff:
  "(h, q) \<in> set (priced_pairs rt yf hs) \<longleftrightarrow>
     h \<in> set hs \<and> get_stock_info rt yf (p_symbol h) = StockQuote q"
  by (induction hs) (auto split: stock_info.splits)

lemma calculate_report:
  assumes "fst (get_portfolio rt None d u) = Inr hs" and "hs \<noteq> []"
  shows "calculate_portfolio_value rt None (market_data_api rt yf) d u =
     (Inr (Valuation
        \<lparr> total_value = py_round2 rt (priced_value rt yf hs),
          total_cost = py_round2 rt (priced_cost rt yf hs),
          total_profit_loss = py_round2 rt (py_sub rt (priced_value rt yf hs) (priced_cost rt yf hs)),
          total_profit_loss_pct =
            (if py_positive rt (priced_cost rt yf hs)
             then py_round2 rt
                    (py_mul rt
                       (py_div rt (py_sub rt (priced_value rt yf hs) (priced_cost rt yf hs))
                          (priced_cost rt yf hs))
                       (py_hundred rt))
             else py_zero rt),
          v_holdings = map (\<lambda>(h, q). detail_of rt h q) (priced_pairs rt yf hs) \<rparr>), d)"
  using assms
  by (simp add: calculate_portfolio_value_def get_portfolio_def value_loop_priced
      priced_value_def priced_cost_def accumulate_def)

text \<open>
  C5, as amended. For a user with at least one holding, the valuation report is built
  from the priced holdings alone: the detail list has one entry for each priced holding,
  in the order in which the store returned the holdings, and none for a holding whose
  lookup failed. \<open>total_value\<close> and \<open>total_cost\<close> are \<open>round(s, 2)\<close> of the sums \<open>s\<close> that
  the loop accumulates over the priced holdings, \<open>total_profit_loss\<close> is \<open>round(s, 2)\<close> of
  the difference of the two sums, and \<open>total_profit_loss_pct\<close> is computed from the two
  sums as they are before rounding, and is 0 when the cost sum is not positive. The
  report has these five fields and no other, and the priced holdings and the two sums
  are the same for the portfolio with the unpriced holdings taken out.
\<close>

theorem valuation_omits_unpriced:
  "fst (get_portfolio rt None d user_id) = Inr hs \<and> hs \<noteq> [] \<longrightarrow>
     fst (calculate_portfolio_value rt None (market_data_api rt yf) d user_id) =
       Inr (Valuation
          \<lparr> total_value = py_round2 rt (priced_value rt yf hs),
            total_cost = py_round2 rt (priced_cost rt yf hs),
            total_profit_loss =
              py_round2 rt (py_sub rt (priced_value rt yf hs) (priced_cost rt yf hs)),
            total_profit_loss_pct =
              (if py_positive rt (priced_cost rt yf hs)
               then py_round2 rt
                      (py_mul rt
                         (py_div rt (py_sub rt (priced_value rt yf hs) (priced_cost rt yf hs))
                            (priced_cost rt yf hs))
                         (py_hundred rt))
               else py_zero rt),
            v_holdings = map (\<lambda>(h, q). detail_of rt h q) (priced_pairs rt yf hs) \<rparr>) \<and>
     map fst (priced_pairs rt yf hs) = filter (priced rt yf) hs \<and>
     priced_pairs rt yf (filter (priced rt yf) hs) = priced_pairs rt yf hs \<and>
     priced_value rt yf (filter (priced rt yf) hs) = priced_value rt yf hs \<and>
     priced_cost rt yf (filter (priced rt yf) hs) = priced_cost rt yf hs"
  by (simp add: calculate_report priced_pairs_filter priced_pairs_idem priced_value_def
      priced_cost_def)

theorem valuation_omits_unpriced_witness:
  "fst (get_portfolio exact None db_two_holdings ''u'') = Inr [aapl_holding, zzzz_holding] \<and>
   [aapl_holding, zzzz_holding] \<noteq> [] \<and>
   map fst (priced_pairs exact yf_aapl_only [aapl_holding, zzzz_holding]) = [aapl_holding] \<and>
   fst (calculate_portfolio_value exact None (market_data_api exact yf_aapl_only) db_two_holdings ''u'') =
     Inr (Valuation aapl_report)"
proof -
  have h: "fst (get_portfolio exact None db_two_holdings ''u'') = Inr [aapl_holding, zzzz_holding]"
    by (simp add: get_portfolio_def db_two_holdings_def holding_of_row_def aapl_holding_def
        zzzz_holding_def exact_def)
  have f: "filter (priced exact yf_aapl_only) [aapl_holding, zzzz_holding] = [aapl_holding]"
    by (simp add: priced_def get_stock_info_def yf_aapl_only_def aapl_holding_def zzzz_holding_def)
  have e: "fst (calculate_portfolio_value exact None (market_data_api exact yf_aapl_only) db_two_holdings ''u'') =
     Inr (Valuation aapl_report)"
    by code_simp
  show ?thesis
    using h f e valuation_omits_unpriced [of exact db_two_holdings "''u''"
        "[aapl_holding, zzzz_holding]" yf_aapl_only]
    by simp
qed

text \<open>
  One thousandth of a share bought at 3: the sum of the cost over the priced holdings is
  0.003, and the report's \<open>total_cost\<close> is 0.
\<close>

theorem valuation_totals_counterexample:
  "fst (get_portfolio exact None (db_one_holding (1 / 1000) 3) ''u'') =
     Inr [\<lparr> p_symbol = ''AAPL'', p_quantity = 1 / 1000, p_buy_price = 3,
            p_buy_date = ''2024-01-02T10:00:00'' \<rparr>] \<and>
   priced_cost exact yf_one_bar
     [\<lparr> p_symbol = ''AAPL'', p_quantity = 1 / 1000, p_buy_price = 3,
        p_buy_date = ''2024-01-02T10:00:00'' \<rparr>] = 3 / 1000 \<and>
   fst (calculate_portfolio_value exact None (market_data_api exact yf_one_bar)
          (db_one_holding (1 / 1000) 3) ''u'') =
     Inr (Valuation
        \<lparr> total_value = 12 / 100, total_cost = 0, total_profit_loss = 12 / 100,
          total_profit_loss_pct = 3900,
          v_holdings =
            [\<lparr> d_symbol = ''AAPL'', d_name = ''Apple Inc.'', d_quantity = 1 / 1000,
               d_buy_price = 3, d_current_price = 120, d_current_value = 12 / 100,
               d_cost_basis = 0, d_profit_loss = 12 / 100, d_profit_loss_pct = 3900 \<rparr>] \<rparr>) \<and>
   (0 :: rat) \<noteq> 3 / 1000"
proof -
  have g: "fst (get_portfolio exact None (db_one_holding (1 / 1000) 3) ''u'') =
     Inr [\<lparr> p_symbol = ''AAPL'', p_quantity = 1 / 1000, p_buy_price = 3,
            p_buy_date = ''2024-01-02T10:00:00'' \<rparr>]"
    by (simp add: get_portfolio_def db_one_holding_def holding_of_row_def exact_def)
  have c: "priced_cost exact yf_one_bar
     [\<lparr> p_symbol = ''AAPL'', p_quantity = 1 / 1000, p_buy_price = 3,
        p_buy_date = ''2024-01-02T10:00:00'' \<rparr>] = 3 / 1000"
    by code_simp
  have r: "fst (calculate_portfolio_value exact None (market_data_api exact yf_one_bar)
          (db_one_holding (1 / 1000) 3) ''u'') =
     Inr (Valuation
        \<lparr> total_value = 12 / 100, total_cost = 0, total_profit_loss = 12 / 100,
          total_profit_loss_pct = 3900,
          v_holdings =
            [\<lparr> d_symbol = ''AAPL'', d_name = ''Apple Inc.'', d_quantity = 1 / 1000,
               d_buy_price = 3, d_current_price = 120, d_current_value = 12 / 100,
               d_cost_basis = 0, d_profit_loss = 12 / 100, d_profit_loss_pct = 3900 \<rparr>] \<rparr>)"
    by code_simp
  from g c r show ?thesis by simp
qed

lemma calculate_valuation_nonempty:
  assumes "fst (get_portfolio rt None d u) = Inr hs"
      and "fst (calculate_portfolio_value rt None api d u) = Inr (Valuation v)"
  shows "hs \<noteq> []"
  using assms
  by (auto simp: calculate_portfolio_value_def get_portfolio_def)

lemma detail_of_explicit:
  "detail_of rt h q =
     \<lparr> d_symbol = p_symbol h, d_name = q_name q, d_quantity = p_quantity h,
       d_buy_price = p_buy_price h, d_current_price = current_price q,
       d_current_value = py_round2 rt (py_mul rt (p_quantity h) (current_price q)),
       d_cost_basis = py_round2 rt (py_mul rt (p_quantity h) (p_buy_price h)),
       d_profit_loss =
         py_round2 rt
           (py_sub rt (py_mul rt (p_quantity h) (current_price q))
              (py_mul rt (p_quantity h) (p_buy_price h))),
       d_profit_loss_pct =
         (if py_positive rt (py_mul rt (p_quantity h) (p_buy_price h))
          then py_round2 rt
                 (py_mul rt
                    (py_div rt
                       (py_sub rt (py_mul rt (p_quantity h) (current_price q))
                          (py_mul rt (p_quantity h) (p_buy_price h)))
                       (py_mul rt (p_quantity h) (p_buy_price h)))
                    (py_hundred rt))
          else py_zero rt) \<rparr>"
  by (simp add: detail_of_def Let_def)

lemma single_holding_report:
  assumes "fst (get_portfolio rt None d u) = Inr [h]"
      and "get_stock_info rt yf (p_symbol h) = StockQuote q"
      and "py_add rt (py_zero rt) (py_mul rt (p_quantity h) (current_price q)) =
             py_mul rt (p_quantity h) (current_price q)"
      and "py_add rt (py_zero rt) (py_mul rt (p_quantity h) (p_buy_price h)) =
             py_mul rt (p_quantity h) (p_buy_price h)"
  shows "fst (calculate_portfolio_value rt None (market_data_api rt yf) d u) =
     Inr (Valuation
        \<lparr> total_value = d_current_value (detail_of rt h q),
          total_cost = d_cost_basis (detail_of rt h q),
          total_profit_loss = d_profit_loss (detail_of rt h q),
          total_profit_loss_pct = d_profit_loss_pct (detail_of rt h q),
          v_holdings = [detail_of rt h q] \<rparr>)"
  using assms calculate_report [of rt d u "[h]" yf]
  by (simp add: priced_value_def priced_cost_def accumulate_def detail_of_def Let_def)

lemma example_report:
  assumes "fst (get_portfolio rt None d u) = Inr [h]"
      and "get_stock_info rt yf (p_symbol h) = StockQuote q"
      and "p_quantity h = py_float rt ''10''"
      and "p_buy_price h = py_float rt ''100''"
      and "current_price q = py_float rt ''120''"
      and "example_arithmetic rt"
  shows "fst (calculate_portfolio_value rt None (market_data_api rt yf) d u) =
     Inr (Valuation
        \<lparr> total_value = py_float rt ''1200'',
          total_cost = py_float rt ''1000'',
          total_profit_loss = py_float rt ''200'',
          total_profit_loss_pct = py_float rt ''20'',
          v_holdings =
            [\<lparr> d_symbol = p_symbol h, d_name = q_name q, d_quantity = py_float rt ''10'',
               d_buy_price = py_float rt ''100'', d_current_price = py_float rt ''120'',
               d_current_value = py_float rt ''1200'', d_cost_basis = py_float rt ''1000'',
               d_profit_loss = py_float rt ''200'',
               d_profit_loss_pct = py_float rt ''20'' \<rparr>] \<rparr>)"
  using assms calculate_report [of rt d u "[h]" yf]
  by (simp add: priced_value_def priced_cost_def accumulate_def detail_of_explicit
      example_arithmetic_def)

text \<open>
  C4, as amended. The detail list of a valuation report has exactly one entry for each
  holding of the user whose lookup returned a quote, in order. In the entry,
  \<open>current_value\<close> is \<open>round(quantity * current_price, 2)\<close>, \<open>cost_basis\<close> is
  \<open>round(quantity * buy_price, 2)\<close>, \<open>profit_loss\<close> is \<open>round\<close> of the difference of the two
  products, and \<open>profit_loss_pct\<close> is \<open>round((profit / cost) * 100, 2)\<close> on the profit and
  the cost as they are before rounding, and 0 when the cost is not positive. For a
  portfolio of one priced holding the totals are the values of its entry, given that
  adding the two products to 0 leaves them as they are. For 10 shares bought at 100 and
  priced at 120 the report is 1200, 1000, 200 and 20, given the facts of arithmetic on
  these numbers that \<open>example_arithmetic\<close> lists.
\<close>

theorem valuation_entry_formulas:
  "(fst (get_portfolio rt None d user_id) = Inr hs \<and>
    fst (calculate_portfolio_value rt None (market_data_api rt yf) d user_id) = Inr (Valuation v) \<longrightarrow>
      v_holdings v =
        map (\<lambda>(h, q).
               \<lparr> d_symbol = p_symbol h, d_name = q_name q, d_quantity = p_quantity h,
                 d_buy_price = p_buy_price h, d_current_price = current_price q,
                 d_current_value = py_round2 rt (py_mul rt (p_quantity h) (current_price q)),
                 d_cost_basis = py_round2 rt (py_mul rt (p_quantity h) (p_buy_price h)),
                 d_profit_loss =
                   py_round2 rt
                     (py_sub rt (py_mul rt (p_quantity h) (current_price q))
                        (py_mul rt (p_quantity h) (p_buy_price h))),
                 d_profit_loss_pct =
                   (if py_positive rt (py_mul rt (p_quantity h) (p_buy_price h))
                    then py_round2 rt
                           (py_mul rt
                              (py_div rt
                                 (py_sub rt (py_mul rt (p_quantity h) (current_price q))
                                    (py_mul rt (p_quantity h) (p_buy_price h)))
                                 (py_mul rt (p_quantity h) (p_buy_price h)))
                              (py_hundred rt))
                    else py_zero rt) \<rparr>)
          (priced_pairs rt yf hs) \<and>
      map fst (priced_pairs rt yf hs) = filter (priced rt yf) hs \<and>
      ((h, q) \<in> set (priced_pairs rt yf hs) \<longleftrightarrow>
         h \<in> set hs \<and> get_stock_info rt yf (p_symbol h) = StockQuote q)) \<and>
   (fst (get_portfolio rt None d user_id) = Inr [h1] \<and>
    get_stock_info rt yf (p_symbol h1) = StockQuote q1 \<and>
    py_add rt (py_zero rt) (py_mul rt (p_quantity h1) (current_price q1)) =
      py_mul rt (p_quantity h1) (current_price q1) \<and>
    py_add rt (py_zero rt) (py_mul rt (p_quantity h1) (p_buy_price h1)) =
      py_mul rt (p_quantity h1) (p_buy_price h1) \<longrightarrow>
      fst (calculate_portfolio_value rt None (market_data_api rt yf) d user_id) =
        Inr (Valuation
           \<lparr> total_value = d_current_value (detail_of rt h1 q1),
             total_cost = d_cost_basis (detail_of rt h1 q1),
             total_profit_loss = d_profit_loss (detail_of rt h1 q1),
             total_profit_loss_pct = d_profit_loss_pct (detail_of rt h1 q1),
             v_holdings = [detail_of rt h1 q1] \<rparr>)) \<and>
   (fst (get_portfolio rt None d user_id) = Inr [h1] \<and>
    get_stock_info rt yf (p_symbol h1) = StockQuote q1 \<and>
    p_quantity h1 = py_float rt ''10'' \<and> p_buy_price h1 = py_float rt ''100'' \<and>
    current_price q1 = py_float rt ''120'' \<and> example_arithmetic rt \<longrightarrow>
      fst (calculate_portfolio_value rt None (market_data_api rt yf) d user_id) =
        Inr (Valuation
           \<lparr> total_value = py_float rt ''1200'',
             total_cost = py_float rt ''1000'',
             total_profit_loss = py_float rt ''200'',
             total_profit_loss_pct = py_float rt ''20'',
             v_holdings =
               [\<lparr> d_symbol = p_symbol h1, d_name = q_name q1,
                  d_quantity = py_float rt ''10'', d_buy_price = py_float rt ''100'',
                  d_current_price = py_float rt ''120'',
                  d_current_value = py_float rt ''1200'',
                  d_cost_basis = py_float rt ''1000'',
                  d_profit_loss = py_float rt ''200'',
                  d_profit_loss_pct = py_float rt ''20'' \<rparr>] \<rparr>))"
proof (intro conjI impI)
  assume a: "fst (get_portfolio rt None d user_id) = Inr hs \<and>
    fst (calculate_portfolio_value rt None (market_data_api rt yf) d user_id) = Inr (Valuation v)"
  then have g: "fst (get_portfolio rt None d user_id) = Inr hs"
    and c: "fst (calculate_portfolio_value rt None (market_data_api rt yf) d user_id) = Inr (Valuation v)"
    by simp_all
  from g c have "hs \<noteq> []" by (rule calculate_valuation_nonempty)
  with a have "v_holdings v = map (\<lambda>(h, q). detail_of rt h q) (priced_pairs rt yf hs)"
    by (auto simp: calculate_report)
  then show "v_holdings v =
        map (\<lambda>(h, q).
               \<lparr> d_symbol = p_symbol h, d_name = q_name q, d_quantity = p_quantity h,
                 d_buy_price = p_buy_price h, d_current_price = current_price q,
                 d_current_value = py_round2 rt (py_mul rt (p_quantity h) (current_price q)),
                 d_cost_basis = py_round2 rt (py_mul rt (p_quantity h) (p_buy_price h)),
                 d_profit_loss =
                   py_round2 rt
                     (py_sub rt (py_mul rt (p_quantity h) (current_price q))
                        (py_mul rt (p_quantity h) (p_buy_price h))),
                 d_profit_loss_pct =
                   (if py_positive rt (py_mul rt (p_quantity h) (p_buy_price h))
                    then py_round2 rt
                           (py_mul rt
                              (py_div rt
                                 (py_sub rt (py_mul rt (p_quantity h) (current_price q))
                                    (py_mul rt (p_quantity h) (p_buy_price h)))
                                 (py_mul rt (p_quantity h) (p_buy_price h)))
                              (py_hundred rt))
                    else py_zero rt) \<rparr>)
          (priced_pairs rt yf hs)"
    by (simp add: detail_of_explicit)
  show "map fst (priced_pairs rt yf hs) = filter (priced rt yf) hs"
    by (rule priced_pairs_filter)
  show "(h, q) \<in> set (priced_pairs rt yf hs) \<longleftrightarrow>
         h \<in> set hs \<and> get_stock_info rt yf (p_symbol h) = StockQuote q"
    by (rule priced_pairs_iff)
next
  assume "fst (get_portfolio rt None d user_id) = Inr [h1] \<and>
    get_stock_info rt yf (p_symbol h1) = StockQuote q1 \<and>
    py_add rt (py_zero rt) (py_mul rt (p_quantity h1) (current_price q1)) =
      py_mul rt (p_quantity h1) (current_price q1) \<and>
    py_add rt (py_zero rt) (py_mul rt (p_quantity h1) (p_buy_price h1)) =
      py_mul rt (p_quantity h1) (p_buy_price h1)"
  then show "fst (calculate_portfolio_value rt None (market_data_api rt yf) d user_id) =
        Inr (Valuation
           \<lparr> total_value = d_current_value (detail_of rt h1 q1),
             total_cost = d_cost_basis (detail_of rt h1 q1),
             total_profit_loss = d_profit_loss (detail_of rt h1 q1),
             total_profit_loss_pct = d_profit_loss_pct (detail_of rt h1 q1),
             v_holdings = [detail_of rt h1 q1] \<rparr>)"
    by (intro single_holding_report) simp_all
next
  assume "fst (get_portfolio rt None d user_id) = Inr [h1] \<and>
    get_stock_info rt yf (p_symbol h1) = StockQuote q1 \<and>
    p_quantity h1 = py_float rt ''10'' \<and> p_buy_price h1 = py_float rt ''100'' \<and>
    current_price q1 = py_float rt ''120'' \<and> example_arithmetic rt"
  then show "fst (calculate_portfolio_value rt None (market_data_api rt yf) d user_id) =
        Inr (Valuation
           \<lparr> total_value = py_float rt ''1200'',
             total_cost = py_float rt ''1000'',
             total_profit_loss = py_float rt ''200'',
             total_profit_loss_pct = py_float rt ''20'',
             v_holdings =
               [\<lparr> d_symbol = p_symbol h1, d_name = q_name q1,
                  d_quantity = py_float rt ''10'', d_buy_price = py_float rt ''100'',
                  d_current_price = py_float rt ''120'',
                  d_current_value = py_float rt ''1200'',
                  d_cost_basis = py_float rt ''1000'',
                  d_profit_loss = py_float rt ''200'',
                  d_profit_loss_pct = py_float rt ''20'' \<rparr>] \<rparr>)"
    by (intro example_report) simp_all
qed

lemma decimal_values:
  "decimal_value ''10'' = 10" "decimal_value ''100'' = 100" "decimal_value ''120'' = 120"
  "decimal_value ''1200'' = 1200" "decimal_value ''1000'' = 1000" "decimal_value ''200'' = 200"
  "decimal_value ''20'' = 20"
  by code_simp+

lemma round_values:
  "round_half_even2 1200 = 1200" "round_half_even2 1000 = 1000" "round_half_even2 200 = 200"
  "round_half_even2 20 = 20"
  by code_simp+

theorem valuation_entry_formulas_witness:
  "fst (get_portfolio exact None (db_one_holding 10 100) ''u'') = Inr [aapl_holding] \<and>
   get_stock_info exact yf_one_bar (p_symbol aapl_holding) = StockQuote aapl_quote \<and>
   p_quantity aapl_holding = py_float exact ''10'' \<and>
   p_buy_price aapl_holding = py_float exact ''100'' \<and>
   current_price aapl_quote = py_float exact ''120'' \<and>
   example_arithmetic exact \<and>
   py_add exact (py_zero exact) (py_mul exact (p_quantity aapl_holding) (current_price aapl_quote)) =
     py_mul exact (p_quantity aapl_holding) (current_price aapl_quote) \<and>
   py_add exact (py_zero exact) (py_mul exact (p_quantity aapl_holding) (p_buy_price aapl_holding)) =
     py_mul exact (p_quantity aapl_holding) (p_buy_price aapl_holding) \<and>
   fst (calculate_portfolio_value exact None (market_data_api exact yf_one_bar)
          (db_one_holding 10 100) ''u'') =
     Inr (Valuation aapl_report) \<and>
   v_holdings aapl_report = [aapl_entry] \<and>
   total_value aapl_report = d_current_value aapl_entry \<and>
   total_cost aapl_report = d_cost_basis aapl_entry \<and>
   total_profit_loss aapl_report = d_profit_loss aapl_entry \<and>
   total_profit_loss_pct aapl_report = d_profit_loss_pct aapl_entry"
proof -
  have g: "fst (get_portfolio exact None (db_one_holding 10 100) ''u'') = Inr [aapl_holding]"
    by (simp add: get_portfolio_def db_one_holding_def holding_of_row_def aapl_holding_def
        exact_def)
  have q: "get_stock_info exact yf_one_bar (p_symbol aapl_holding) = StockQuote aapl_quote"
    by code_simp
  have n: "p_quantity aapl_holding = py_float exact ''10'' \<and>
   p_buy_price aapl_holding = py_float exact ''100'' \<and>
   current_price aapl_quote = py_float exact ''120''"
    by code_simp
  have x: "example_arithmetic exact"
    by (simp add: example_arithmetic_def exact_def decimal_values round_values)
  have z: "py_add exact (py_zero exact) (py_mul exact (p_quantity aapl_holding) (current_price aapl_quote)) =
     py_mul exact (p_quantity aapl_holding) (current_price aapl_quote) \<and>
   py_add exact (py_zero exact) (py_mul exact (p_quantity aapl_holding) (p_buy_price aapl_holding)) =
     py_mul exact (p_quantity aapl_holding) (p_buy_price aapl_holding)"
    by (simp add: exact_def)
  have r: "Valuation
           \<lparr> total_value = py_float exact ''1200'',
             total_cost = py_float exact ''1000'',
             total_profit_loss = py_float exact ''200'',
             total_profit_loss_pct = py_float exact ''20'',
             v_holdings =
               [\<lparr> d_symbol = p_symbol aapl_holding, d_name = q_name aapl_quote,
                  d_quantity = py_float exact ''10'', d_buy_price = py_float exact ''100'',
                  d_current_price = py_float exact ''120'',
                  d_current_value = py_float exact ''1200'',
                  d_cost_basis = py_float exact ''1000'',
                  d_profit_loss = py_float exact ''200'',
                  d_profit_loss_pct = py_float exact ''20'' \<rparr>] \<rparr> = Valuation aapl_report"
    by code_simp
  have t: "v_holdings aapl_report = [aapl_entry] \<and>
   total_value aapl_report = d_current_value aapl_entry \<and>
   total_cost aapl_report = d_cost_basis aapl_entry \<and>
   total_profit_loss aapl_report = d_profit_loss aapl_entry \<and>
   total_profit_loss_pct aapl_report = d_profit_loss_pct aapl_entry"
    by (simp add: aapl_report_def aapl_entry_def)
  note third =
    valuation_entry_formulas [of exact "db_one_holding 10 100" "''u''" "[aapl_holding]"
      yf_one_bar aapl_report aapl_holding aapl_quote aapl_holding aapl_quote,
      THEN conjunct2, THEN conjunct2]
  have "fst (calculate_portfolio_value exact None (market_data_api exact yf_one_bar)
          (db_one_holding 10 100) ''u'') =
     Inr (Valuation
           \<lparr> total_value = py_float exact ''1200'',
             total_cost = py_float exact ''1000'',
             total_profit_loss = py_float exact ''200'',
             total_profit_loss_pct = py_float exact ''20'',
             v_holdings =
               [\<lparr> d_symbol = p_symbol aapl_holding, d_name = q_name aapl_quote,
                  d_quantity = py_float exact ''10'', d_buy_price = py_float exact ''100'',
                  d_current_price = py_float exact ''120'',
                  d_current_value = py_float exact ''1200'',
                  d_cost_basis = py_float exact ''1000'',
                  d_profit_loss = py_float exact ''200'',
                  d_profit_loss_pct = py_float exact ''20'' \<rparr>] \<rparr>)"
    by (rule third [THEN mp]) (intro conjI g q n [THEN conjunct1]
        n [THEN conjunct2, THEN conjunct1] n [THEN conjunct2, THEN conjunct2] x)
  then have c: "fst (calculate_portfolio_value exact None (market_data_api exact yf_one_bar)
          (db_one_holding 10 100) ''u'') =
     Inr (Valuation aapl_report)"
    by (simp only: r)
  show ?thesis
    by (intro conjI g q n [THEN conjunct1] n [THEN conjunct2, THEN conjunct1]
        n [THEN conjunct2, THEN conjunct2] x z [THEN conjunct1] z [THEN conjunct2] c
        t [THEN conjunct1] t [THEN conjunct2, THEN conjunct1]
        t [THEN conjunct2, THEN conjunct2, THEN conjunct1]
        t [THEN conjunct2, THEN conjunct2, THEN conjunct2, THEN conjunct1]
        t [THEN conjunct2, THEN conjunct2, THEN conjunct2, THEN conjunct2])
qed

text \<open>
  One thousandth of a share bought at 1: the entry's cost basis is 0, not 0.001.
\<close>

theorem valuation_rounding_counterexample:
  "fst (calculate_portfolio_value exact None (market_data_api exact yf_one_bar)
          (db_one_holding (1 / 1000) 1) ''u'') =
     Inr (Valuation
        \<lparr> total_value = 12 / 100, total_cost = 0, total_profit_loss = 12 / 100,
          total_profit_loss_pct = 11900,
          v_holdings =
            [\<lparr> d_symbol = ''AAPL'', d_name = ''Apple Inc.'', d_quantity = 1 / 1000,
               d_buy_price = 1, d_current_price = 120, d_current_value = 12 / 100,
               d_cost_basis = 0, d_profit_loss = 12 / 100, d_profit_loss_pct = 11900 \<rparr>] \<rparr>) \<and>
   (0 :: rat) \<noteq> py_mul exact (1 / 1000) 1"
proof -
  have "fst (calculate_portfolio_value exact None (market_data_api exact yf_one_bar)
          (db_one_holding (1 / 1000) 1) ''u'') =
     Inr (Valuation
        \<lparr> total_value = 12 / 100, total_cost = 0, total_profit_loss = 12 / 100,
          total_profit_loss_pct = 11900,
          v_holdings =
            [\<lparr> d_symbol = ''AAPL'', d_name = ''Apple Inc.'', d_quantity = 1 / 1000,
               d_buy_price = 1, d_current_price = 120, d_current_value = 12 / 100,
               d_cost_basis = 0, d_profit_loss = 12 / 100, d_profit_loss_pct = 11900 \<rparr>] \<rparr>)"
    by code_simp
  then show ?thesis by (simp add: exact_def)
qed

end
